theory Spec2Isabelle
  imports Main "HOL-Library.Word"
begin

unbundle bit_operations_syntax

section \<open>The node store of package dom\<close>

subsection \<open>Node types (dom/nodetype.go)\<close>

text \<open>
  \<^verbatim>\<open>type NodeType int8\<close> with fourteen constants numbered by \<^verbatim>\<open>iota\<close>.  The only values a
  node ever reports are those returned by the \<^verbatim>\<open>nodeType()\<close> methods of its payload, or
  \<^verbatim>\<open>NodeTypeNull\<close> (the constant 0) for a nil payload, so the enumeration is a datatype.
\<close>

datatype NodeType =
    NodeTypeNull
  | NodeTypeElement
  | NodeTypeAttribute
  | NodeTypeText
  | NodeTypeCDATASection
  | NodeTypeEntityReference
  | NodeTypeEntity
  | NodeTypeProcessingInstruction
  | NodeTypeComment
  | NodeTypeDocument
  | NodeTypeDocumentType
  | NodeTypeDocumentFragment
  | NodeTypeNotation
  | NodeTypeDeclaration

fun String :: "NodeType \<Rightarrow> string" where
  "String NodeTypeNull = ''NULL''"
| "String NodeTypeElement = ''ELEMENT_NODE''"
| "String NodeTypeAttribute = ''ATTRIBUTE_NODE''"
| "String NodeTypeText = ''TEXT_NODE''"
| "String NodeTypeCDATASection = ''CDATA_SECTION_NODE''"
| "String NodeTypeEntityReference = ''ENTITY_REFERENCE_NODE''"
| "String NodeTypeEntity = ''ENTITY_NODE''"
| "String NodeTypeProcessingInstruction = ''PROCESSING_INSTRUCTION_NODE''"
| "String NodeTypeComment = ''COMMENT_NODE''"
| "String NodeTypeDocument = ''DOCUMENT_NODE''"
| "String NodeTypeDocumentType = ''DOCUMENT_TYPE_NODE''"
| "String NodeTypeDocumentFragment = ''DOCUMENT_FRAGMENT_NODE''"
| "String NodeTypeNotation = ''NOTATION_NODE''"
| "String NodeTypeDeclaration = ''PROCESSING_INSTRUCTION_NODE''"

subsection \<open>Errors (dom/errors.go, and the panics of the Go runtime)\<close>

text \<open>
  \<^verbatim>\<open>errors.Wrap(e, msg)\<close> keeps its cause; \<^verbatim>\<open>errors.New\<close> and \<^verbatim>\<open>errors.Errorf\<close> carry only a
  message.  A nil pointer dereference, an out-of-range slice or index expression and a
  failed single-value type assertion are run-time panics; they are error values here so
  that every such branch of the source is a branch of the model.
\<close>

datatype error =
    ErrIndexSize
  | ErrHierarchyRequest
  | Wrap error string
  | Errorf string
  | EOF
  | ErrUnexpectedEOF
  | NilDereference
  | SliceOutOfRange
  | IndexOutOfRange
  | TypeAssertionFailed

fun Cause :: "error \<Rightarrow> error" where
  "Cause (Wrap e m) = Cause e"
| "Cause e = e"

definition isHierarchyError :: "error option \<Rightarrow> bool" where
  "isHierarchyError r = (case r of None \<Rightarrow> False | Some e \<Rightarrow> Cause e = ErrHierarchyRequest)"

subsection \<open>XML names, attributes and processing instructions (package flexml, as used)\<close>

record Name =
  Space :: string
  Local :: string

record Attr =
  AttrName :: Name
  Value :: string

record ProcInst =
  Target :: string
  Inst :: string

subsection \<open>Nodes and the pointer store\<close>

text \<open>
  \<^verbatim>\<open>node.value\<close> holds one of the payload types of the package behind the interface
  \<^verbatim>\<open>nodeTyper\<close>, or nil.  The context of a document payload plays no part in the tree
  operations and is left out.
\<close>

datatype nodeTyper =
    ValNil
  | ValElement Name string
  | ValAttribute Attr
  | ValText string
  | ValComment string
  | ValProcInst ProcInst
  | ValDeclaration ProcInst
  | ValDocument
  | ValDocumentFragment

fun nodeType :: "nodeTyper \<Rightarrow> NodeType" where
  "nodeType ValNil = NodeTypeNull"
| "nodeType (ValElement n p) = NodeTypeElement"
| "nodeType (ValAttribute a) = NodeTypeAttribute"
| "nodeType (ValText t) = NodeTypeText"
| "nodeType (ValComment c) = NodeTypeComment"
| "nodeType (ValProcInst p) = NodeTypeProcessingInstruction"
| "nodeType (ValDeclaration p) = NodeTypeDeclaration"
| "nodeType ValDocument = NodeTypeDocument"
| "nodeType ValDocumentFragment = NodeTypeDocumentFragment"

text \<open>
  A \<^verbatim>\<open>*node\<close> is an address; nil is \<open>None\<close>.  The store maps every address to the node
  record found there, and each assignment \<^verbatim>\<open>p.f = v\<close> of the source is one update of the
  store, in the order of the source, so that aliased arguments behave as they do in Go.
\<close>

record node =
  parent :: "nat option"
  firstChild :: "nat option"
  nextSib :: "nat option"
  prevSib :: "nat option"
  firstAttr :: "nat option"
  val :: nodeTyper

type_synonym heap = "nat \<Rightarrow> node"

definition newNode :: "nodeTyper \<Rightarrow> node" where
  "newNode v = \<lparr>parent = None, firstChild = None, nextSib = None, prevSib = None,
                firstAttr = None, val = v\<rparr>"

definition set_parent :: "nat \<Rightarrow> nat option \<Rightarrow> heap \<Rightarrow> heap" where
  "set_parent p v h = h(p := (h p)\<lparr>parent := v\<rparr>)"

definition set_firstChild :: "nat \<Rightarrow> nat option \<Rightarrow> heap \<Rightarrow> heap" where
  "set_firstChild p v h = h(p := (h p)\<lparr>firstChild := v\<rparr>)"

definition set_nextSib :: "nat \<Rightarrow> nat option \<Rightarrow> heap \<Rightarrow> heap" where
  "set_nextSib p v h = h(p := (h p)\<lparr>nextSib := v\<rparr>)"

definition set_prevSib :: "nat \<Rightarrow> nat option \<Rightarrow> heap \<Rightarrow> heap" where
  "set_prevSib p v h = h(p := (h p)\<lparr>prevSib := v\<rparr>)"

definition set_firstAttr :: "nat \<Rightarrow> nat option \<Rightarrow> heap \<Rightarrow> heap" where
  "set_firstAttr p v h = h(p := (h p)\<lparr>firstAttr := v\<rparr>)"

definition NodeTypeOf :: "heap \<Rightarrow> nat \<Rightarrow> NodeType" where
  "NodeTypeOf h n = nodeType (val (h n))"

subsection \<open>Accessors (dom/comment.go)\<close>

definition Parent :: "heap \<Rightarrow> nat \<Rightarrow> nat option" where
  "Parent h n = parent (h n)"

definition FirstChild :: "heap \<Rightarrow> nat \<Rightarrow> nat option" where
  "FirstChild h n = firstChild (h n)"

text \<open>\<^verbatim>\<open>LastChild\<close> returns \<^verbatim>\<open>n.firstChild.prevSib\<close>.\<close>

definition LastChild :: "heap \<Rightarrow> nat \<Rightarrow> nat option" where
  "LastChild h n = (case firstChild (h n) of None \<Rightarrow> None | Some f \<Rightarrow> prevSib (h f))"

definition NextSibling :: "heap \<Rightarrow> nat \<Rightarrow> nat option" where
  "NextSibling h n = nextSib (h n)"


subsection \<open>Linking primitives (dom/comment.go)\<close>

definition appendNode :: "nat \<Rightarrow> nat \<Rightarrow> heap \<Rightarrow> error option \<times> heap" where
  "appendNode child par h0 =
     (let h1 = set_parent child (Some par) h0 in
      case firstChild (h1 par) of
        Some head \<Rightarrow>
          (case prevSib (h1 head) of
             None \<Rightarrow> (Some NilDereference, h1)
           | Some tail \<Rightarrow>
               let h2 = set_nextSib tail (Some child) h1;
                   h3 = set_prevSib child (Some tail) h2;
                   h4 = set_prevSib head (Some child) h3
               in (None, h4))
      | None \<Rightarrow>
          let h2 = set_firstChild par (Some child) h1;
              h3 = set_prevSib child (Some child) h2
          in (None, h3))"

definition prependNode :: "nat \<Rightarrow> nat \<Rightarrow> heap \<Rightarrow> error option \<times> heap" where
  "prependNode child par h0 =
     (let h1 = set_parent child (Some par) h0;
          head = firstChild (h1 par);
          h2 = (case head of
                  Some x \<Rightarrow>
                    let h' = set_prevSib child (prevSib (h1 x)) h1
                    in set_prevSib x (Some child) h'
                | None \<Rightarrow> set_prevSib child (Some child) h1);
          h3 = set_nextSib child head h2;
          h4 = set_firstChild par (Some child) h3
      in (None, h4))"

text \<open>
  \<^verbatim>\<open>insertNodeBefore\<close> assigns \<^verbatim>\<open>child.parent = before\<close> and, when \<^verbatim>\<open>before.prevSib\<close> is not
  nil, \<^verbatim>\<open>before.prevSib.nextSib = child\<close>; it never assigns \<^verbatim>\<open>parent.firstChild\<close>.
\<close>

definition insertNodeBefore :: "nat \<Rightarrow> nat \<Rightarrow> heap \<Rightarrow> error option \<times> heap" where
  "insertNodeBefore child before h0 =
     (let par = parent (h0 before);
          h1 = set_parent child (Some before) h0;
          r = (case prevSib (h1 before) of
                 Some bp \<Rightarrow> (None, set_nextSib bp (Some child) h1)
               | None \<Rightarrow>
                   (case par of
                      None \<Rightarrow> (Some NilDereference, h1)
                    | Some p \<Rightarrow>
                        (case firstChild (h1 p) of
                           None \<Rightarrow> (Some NilDereference, h1)
                         | Some f \<Rightarrow> (None, set_prevSib f (Some child) h1))))
      in case r of
           (Some e, h2) \<Rightarrow> (Some e, h2)
         | (None, h2) \<Rightarrow>
             let h3 = set_prevSib child (prevSib (h2 before)) h2;
                 h4 = set_nextSib child (Some before) h3;
                 h5 = set_prevSib before (Some child) h4
             in (None, h5))"

definition insertNodeAfter :: "nat \<Rightarrow> nat \<Rightarrow> heap \<Rightarrow> error option \<times> heap" where
  "insertNodeAfter child after h0 =
     (let par = parent (h0 after);
          h1 = set_parent child par h0;
          r = (case nextSib (h1 after) of
                 Some next \<Rightarrow> (None, set_prevSib next (Some child) h1)
               | None \<Rightarrow>
                   (case par of
                      None \<Rightarrow> (Some NilDereference, h1)
                    | Some p \<Rightarrow>
                        (case firstChild (h1 p) of
                           None \<Rightarrow> (Some NilDereference, h1)
                         | Some f \<Rightarrow> (None, set_prevSib f (Some child) h1))))
      in case r of
           (Some e, h2) \<Rightarrow> (Some e, h2)
         | (None, h2) \<Rightarrow>
             let h3 = set_nextSib child (nextSib (h2 after)) h2;
                 h4 = set_prevSib child (Some after) h3;
                 h5 = set_nextSib after (Some child) h4
             in (None, h5))"

subsection \<open>Structural validity (dom/comment.go)\<close>

definition allowInsertChild :: "NodeType \<Rightarrow> NodeType \<Rightarrow> bool" where
  "allowInsertChild par child =
     (if par = NodeTypeNull \<or> child = NodeTypeNull then False
      else if par \<noteq> NodeTypeDocument \<and> par \<noteq> NodeTypeElement then False
      else if child = NodeTypeDocument \<or> child = NodeTypeNull then False
      else if par \<noteq> NodeTypeDocument \<and>
              (child = NodeTypeDocumentType \<or> child = NodeTypeDeclaration) then False
      else True)"

definition allowInsertChildErr :: "NodeType \<Rightarrow> NodeType \<Rightarrow> error option" where
  "allowInsertChildErr par child =
     (if \<not> allowInsertChild par child
      then Some (Wrap ErrHierarchyRequest
                  (''parent node type '' @ String par @ '' may not have a '' @ String child @ '' child''))
      else None)"

subsection \<open>The four child mutation operations (dom/comment.go)\<close>

definition AppendChild :: "nat \<Rightarrow> nat \<Rightarrow> heap \<Rightarrow> error option \<times> heap" where
  "AppendChild n child h =
     (case allowInsertChildErr (NodeTypeOf h n) (NodeTypeOf h child) of
        Some err \<Rightarrow> (Some err, h)
      | None \<Rightarrow> appendNode child n h)"

definition PrependChild :: "nat \<Rightarrow> nat \<Rightarrow> heap \<Rightarrow> error option \<times> heap" where
  "PrependChild n child h =
     (case allowInsertChildErr (NodeTypeOf h n) (NodeTypeOf h child) of
        Some err \<Rightarrow> (Some err, h)
      | None \<Rightarrow> prependNode child n h)"

definition InsertChildAfter :: "nat \<Rightarrow> nat \<Rightarrow> nat option \<Rightarrow> heap \<Rightarrow> error option \<times> heap" where
  "InsertChildAfter n child after h =
     (case allowInsertChildErr (NodeTypeOf h n) (NodeTypeOf h child) of
        Some err \<Rightarrow> (Some err, h)
      | None \<Rightarrow>
          (case after of
             None \<Rightarrow> appendNode child n h
           | Some a \<Rightarrow>
               if Parent h a \<noteq> Some n then (Some ErrHierarchyRequest, h)
               else insertNodeAfter child a h))"

definition InsertChildBefore :: "nat \<Rightarrow> nat \<Rightarrow> nat option \<Rightarrow> heap \<Rightarrow> error option \<times> heap" where
  "InsertChildBefore n child before h =
     (case allowInsertChildErr (NodeTypeOf h n) (NodeTypeOf h child) of
        Some err \<Rightarrow> (Some err, h)
      | None \<Rightarrow>
          (case before of
             None \<Rightarrow> prependNode child n h
           | Some b \<Rightarrow>
               if Parent h b \<noteq> Some n then (Some ErrHierarchyRequest, h)
               else insertNodeBefore child b h))"

subsection \<open>The validity rule in the words of the specification\<close>

text \<open>
  Section 4.1 of the specification: reject if either kind is the null kind; reject unless
  the parent kind is Document or Element; reject if the child kind is Document; reject
  DocumentType or Declaration children unless the parent kind is Document.  This second
  definition follows those words and is compared with \<open>allowInsertChild\<close> below.
\<close>

definition structurallyValid :: "NodeType \<Rightarrow> NodeType \<Rightarrow> bool" where
  "structurallyValid par child \<longleftrightarrow>
     par \<noteq> NodeTypeNull \<and> child \<noteq> NodeTypeNull \<and>
     (par = NodeTypeDocument \<or> par = NodeTypeElement) \<and>
     child \<noteq> NodeTypeDocument \<and>
     ((child = NodeTypeDocumentType \<or> child = NodeTypeDeclaration) \<longrightarrow> par = NodeTypeDocument)"

subsection \<open>Sample stores\<close>

text \<open>
  Four free-standing nodes, as the factory functions return them: a document at address 0,
  elements \<open>a\<close> and \<open>b\<close> at 1 and 2, and a text node holding \<open>abc\<close> at 3.
\<close>

definition exHeap :: heap where
  "exHeap = (\<lambda>a. newNode ValNil)
     (0 := newNode ValDocument,
      1 := newNode (ValElement \<lparr>Space = [], Local = ''a''\<rparr> []),
      2 := newNode (ValElement \<lparr>Space = [], Local = ''b''\<rparr> []),
      3 := newNode (ValText ''abc''))"

subsection \<open>The circular-tail sibling list, as a predicate on the store\<close>

text \<open>
  \<open>childList h p xs\<close> says that the children of \<open>p\<close> in store \<open>h\<close> are exactly the
  nodes \<open>xs\<close>, in this order, linked as section 3 of the specification describes: the
  parent's \<^verbatim>\<open>firstChild\<close> is the head, every node's \<^verbatim>\<open>parent\<close> is \<open>p\<close>, \<^verbatim>\<open>nextSib\<close> leads
  to the following node and is nil at the tail, \<^verbatim>\<open>prevSib\<close> leads to the preceding node
  and from the head to the tail.
\<close>

definition childList :: "heap \<Rightarrow> nat \<Rightarrow> nat list \<Rightarrow> bool" where
  "childList h p xs \<longleftrightarrow>
     distinct xs \<and>
     firstChild (h p) = (if xs = [] then None else Some (hd xs)) \<and>
     (\<forall>i < length xs.
        parent (h (xs ! i)) = Some p \<and>
        nextSib (h (xs ! i)) = (if Suc i < length xs then Some (xs ! Suc i) else None) \<and>
        prevSib (h (xs ! i)) = Some (if i = 0 then last xs else xs ! (i - 1)))"

text \<open>The document of \<open>exHeap\<close> after \<^verbatim>\<open>doc.AppendChild(a)\<close>, and then \<^verbatim>\<open>doc.AppendChild(b)\<close>.\<close>

definition exDocA :: heap where
  "exDocA = snd (AppendChild 0 1 exHeap)"


subsection \<open>Owner document and move validity (dom/comment.go)\<close>

text \<open>
  \<^verbatim>\<open>OwnerDocument\<close> walks the parent links and returns the first ancestor whose payload
  passes the type assertion \<^verbatim>\<open>it.value.(Document)\<close>.  The payload of a document node is a
  \<^verbatim>\<open>*document\<close>, whose method set is \<^verbatim>\<open>nodeType\<close> and \<^verbatim>\<open>Context\<close>; the interface
  \<^verbatim>\<open>Document\<close> embeds \<^verbatim>\<open>Node\<close> and so asks for the methods of \<^verbatim>\<open>*node\<close> as well, which no
  payload type has (only the wrapper \<^verbatim>\<open>documentNode\<close> has them, and it is never stored in
  \<^verbatim>\<open>node.value\<close>).  The assertion therefore fails for every payload.

  The two loops follow parent links until nil; on a cyclic store they do not return, so
  they are partial functions and \<open>None\<close> stands for divergence.
\<close>

definition implementsDocument :: "nodeTyper \<Rightarrow> bool" where
  "implementsDocument v = False"

partial_function (option) ownerWalk :: "heap \<Rightarrow> nat option \<Rightarrow> nat option option" where
  "ownerWalk h it =
     (case it of
        None \<Rightarrow> Some None
      | Some i \<Rightarrow> if implementsDocument (val (h i)) then Some (Some i)
                  else ownerWalk h (parent (h i)))"

definition OwnerDocument :: "heap \<Rightarrow> nat \<Rightarrow> nat option option" where
  "OwnerDocument h n = ownerWalk h (parent (h n))"




section \<open>Character data of Text and Comment nodes (unnamed/part_001)\<close>

text \<open>
  The payload of a text node is \<^verbatim>\<open>value []byte\<close>; a comment embeds the same struct.  Each
  operation takes the current bytes and returns the error and the bytes afterwards.
  Offsets and counts are Go's \<^verbatim>\<open>int\<close>, here 64-bit two's complement, so that
  \<^verbatim>\<open>offset+count\<close> wraps as it does in the source; \<^verbatim>\<open>len\<close> counts bytes.  A slice expression
  with a bound out of range is a run-time panic.
\<close>

definition SetData :: "string \<Rightarrow> string \<Rightarrow> error option \<times> string" where
  "SetData arg v = (None, arg)"

definition AppendData :: "string \<Rightarrow> string \<Rightarrow> error option \<times> string" where
  "AppendData arg v = (None, v @ arg)"

text \<open>
  \<^verbatim>\<open>t.value = append(t.value[:offset], t.value[offset+count:]...)\<close> after the check
  \<^verbatim>\<open>count < 0 || offset+count > len(t.value)\<close>.
\<close>

definition DeleteData :: "64 word \<Rightarrow> 64 word \<Rightarrow> string \<Rightarrow> error option \<times> string" where
  "DeleteData offset count v =
     (if sint count < 0 \<or> sint (offset + count) > int (length v) then (Some ErrIndexSize, v)
      else if sint offset < 0 \<or> sint (offset + count) < sint offset
        then (Some SliceOutOfRange, v)
      else (None, take (nat (sint offset)) v @ drop (nat (sint (offset + count))) v))"

text \<open>
  \<^verbatim>\<open>copy(t.value[offset:], arg[:count])\<close> after the check
  \<^verbatim>\<open>count < 0 || offset+count > len(t.value) || len(arg) < count\<close>; \<^verbatim>\<open>copy\<close> moves as many
  bytes as the shorter of its two arguments holds.
\<close>

definition ReplaceData :: "64 word \<Rightarrow> 64 word \<Rightarrow> string \<Rightarrow> string \<Rightarrow> error option \<times> string" where
  "ReplaceData offset count arg v =
     (if sint count < 0 \<or> sint (offset + count) > int (length v) \<or> int (length arg) < sint count
        then (Some ErrIndexSize, v)
      else if sint offset < 0 \<or> sint offset > int (length v) then (Some SliceOutOfRange, v)
      else
        let off = nat (sint offset);
            k = min (length v - off) (nat (sint count))
        in (None, take off v @ take k arg @ drop (off + k) v))"

definition InsertData :: "64 word \<Rightarrow> string \<Rightarrow> string \<Rightarrow> error option \<times> string" where
  "InsertData offset arg v =
     (if sint offset \<ge> 0 \<and> sint offset < int (length v)
        then (None, take (nat (sint offset)) v @ arg @ drop (nat (sint offset)) v)
      else (Some ErrIndexSize, v))"

text \<open>
  The length in runes that the interface documentation and the specification speak of
  (\<^verbatim>\<open>DeleteData deletes count runes of character data at offset\<close>): in well-formed UTF-8
  every rune has exactly one byte that is not a continuation byte \<^verbatim>\<open>10xxxxxx\<close>.  This
  definition follows those words; the source has no counterpart.
\<close>

definition RuneCount :: "string \<Rightarrow> nat" where
  "RuneCount s = length (filter (\<lambda>c. (of_char c :: nat) div 64 \<noteq> 2) s)"

text \<open>The one-rune string U+00E9 (e with acute accent), two bytes in UTF-8.\<close>

definition eAcute :: string where
  "eAcute = [CHR 0xC3, CHR 0xA9]"

section \<open>The streaming decoder: Builder (dom/attr.go)\<close>

subsection \<open>Allocation\<close>

text \<open>
  A composite literal \<^verbatim>\<open>&node{value: v}\<close> takes the next unused address of the store and
  writes a node with nil links there.
\<close>

record store =
  cells :: heap
  nextAddr :: nat

definition alloc :: "nodeTyper \<Rightarrow> store \<Rightarrow> nat \<times> store" where
  "alloc v s = (nextAddr s, s\<lparr>cells := (cells s)(nextAddr s := newNode v), nextAddr := Suc (nextAddr s)\<rparr>)"

definition newText :: "string \<Rightarrow> store \<Rightarrow> nat \<times> store" where
  "newText cd s = alloc (ValText cd) s"

definition newAttribute :: "Attr \<Rightarrow> store \<Rightarrow> nat \<times> store" where
  "newAttribute a s = alloc (ValAttribute a) s"

text \<open>\<^verbatim>\<open>appendAttribute\<close> (dom/comment.go): the attribute list of \<open>par\<close>, linked like a child list
  but without a parent link.\<close>

definition appendAttribute :: "nat \<Rightarrow> nat \<Rightarrow> heap \<Rightarrow> error option \<times> heap" where
  "appendAttribute attr par h =
     (case firstAttr (h par) of
        Some head \<Rightarrow>
          (case prevSib (h head) of
             None \<Rightarrow> (Some NilDereference, h)
           | Some tail \<Rightarrow>
               let h1 = set_nextSib tail (Some attr) h;
                   h2 = set_prevSib attr (Some tail) h1;
                   h3 = set_prevSib head (Some attr) h2
               in (None, h3))
      | None \<Rightarrow>
          let h1 = set_firstAttr par (Some attr) h;
              h2 = set_prevSib attr (Some attr) h1
          in (None, h2))"

text \<open>The loop \<^verbatim>\<open>for _, a := range elem.Attr { appendAttribute(newAttribute(a), n) }\<close> of
  \<^verbatim>\<open>newStartElement\<close>.\<close>

fun appendAttributes :: "Attr list \<Rightarrow> nat \<Rightarrow> store \<Rightarrow> error option \<times> store" where
  "appendAttributes [] n s = (None, s)"
| "appendAttributes (a # as) n s =
     (let (attr, s1) = newAttribute a s in
      case appendAttribute attr n (cells s1) of
        (Some e, h) \<Rightarrow> (Some e, s1\<lparr>cells := h\<rparr>)
      | (None, h) \<Rightarrow> appendAttributes as n (s1\<lparr>cells := h\<rparr>))"

definition newStartElement :: "Name \<Rightarrow> Attr list \<Rightarrow> store \<Rightarrow> error option \<times> nat \<times> store" where
  "newStartElement name attrs s =
     (let (n, s1) = alloc (ValElement name []) s in
      case appendAttributes attrs n s1 of (e, s2) \<Rightarrow> (e, n, s2))"

subsection \<open>Configuration flags\<close>

text \<open>\<^verbatim>\<open>type bitflag uint32\<close>; the flags are \<^verbatim>\<open>1 << iota\<close> in the order of the source.\<close>

type_synonym bitflag = "32 word"

definition Has :: "bitflag \<Rightarrow> bitflag \<Rightarrow> bool" where
  "Has f other = (f AND other \<noteq> 0)"

definition Add :: "bitflag \<Rightarrow> bitflag \<Rightarrow> bitflag" where
  "Add f other = f OR other"

definition parseDeclaration :: bitflag where "parseDeclaration = push_bit 0 1"
definition parseDoctype :: bitflag where "parseDoctype = push_bit 1 1"
definition parsePI :: bitflag where "parsePI = push_bit 2 1"
definition parseComments :: bitflag where "parseComments = push_bit 3 1"
definition parseTrimPCData :: bitflag where "parseTrimPCData = push_bit 4 1"
definition parseWSPCData :: bitflag where "parseWSPCData = push_bit 5 1"
definition parseFragment :: bitflag where "parseFragment = push_bit 6 1"

subsection \<open>The Builder and its token handlers\<close>

text \<open>
  The Builder embeds a \<^verbatim>\<open>Node\<close> interface value, its cursor, which may be nil.  A handler
  takes the Builder and the store and returns the error, the Builder and the store
  afterwards.  Calling a method through a nil cursor is a nil dereference.
\<close>

record Builder =
  Node :: "nat option"
  opts :: bitflag

definition Builder_Begin :: "Builder \<Rightarrow> store \<Rightarrow> error option \<times> Builder \<times> store" where
  "Builder_Begin un s =
     (if Node un = None then (Some (Errorf ''error decoding XML: node cursor is nil''), un, s)
      else (None, un, s))"

definition Builder_StartElement ::
  "Name \<Rightarrow> Attr list \<Rightarrow> Builder \<Rightarrow> store \<Rightarrow> error option \<times> Builder \<times> store" where
  "Builder_StartElement name attrs un s =
     (case newStartElement name attrs s of
        (Some e, n, s1) \<Rightarrow> (Some e, un, s1)
      | (None, n, s1) \<Rightarrow>
          (case Node un of
             None \<Rightarrow> (Some NilDereference, un, s1)
           | Some cur \<Rightarrow>
               (None, un\<lparr>Node := Some n\<rparr>, s1\<lparr>cells := set_parent n (Some cur) (cells s1)\<rparr>)))"

definition Builder_EndElement :: "Builder \<Rightarrow> store \<Rightarrow> error option \<times> Builder \<times> store" where
  "Builder_EndElement un s =
     (case Node un of
        None \<Rightarrow> (Some NilDereference, un, s)
      | Some n \<Rightarrow>
          (case parent (cells s n) of
             None \<Rightarrow> (Some (Wrap ErrHierarchyRequest ''context node has a nil parent''), un, s)
           | Some p \<Rightarrow>
               (case AppendChild p n (cells s) of
                  (Some err, h) \<Rightarrow> (Some err, un, s\<lparr>cells := h\<rparr>)
                | (None, h) \<Rightarrow> (None, un\<lparr>Node := Parent h n\<rparr>, s\<lparr>cells := h\<rparr>))))"

text \<open>\<^verbatim>\<open>un.Node.AppendChild(newText(d))\<close>: the argument is allocated first.\<close>

definition Builder_appendText :: "string \<Rightarrow> nat \<Rightarrow> Builder \<Rightarrow> store \<Rightarrow> error option \<times> Builder \<times> store" where
  "Builder_appendText d n un s =
     (let (t, s1) = newText d s in
      case AppendChild n t (cells s1) of (e, h) \<Rightarrow> (e, un, s1\<lparr>cells := h\<rparr>))"

text \<open>
  \<^verbatim>\<open>bytes.TrimSpace\<close> belongs to the Go standard library and is a parameter of the handler.
\<close>

definition Builder_CharData ::
  "(string \<Rightarrow> string) \<Rightarrow> string \<Rightarrow> Builder \<Rightarrow> store \<Rightarrow> error option \<times> Builder \<times> store" where
  "Builder_CharData TrimSpace cd un s =
     (case Node un of
        None \<Rightarrow> (Some NilDereference, un, s)
      | Some n \<Rightarrow>
          (case allowInsertChildErr (NodeTypeOf (cells s) n) NodeTypeText of
             Some err \<Rightarrow> (Some err, un, s)
           | None \<Rightarrow>
               if length cd = 0 \<and> \<not> Has (opts un) parseWSPCData then (None, un, s)
               else if \<not> Has (opts un) parseTrimPCData then Builder_appendText cd n un s
               else
                 let trimmed = TrimSpace cd in
                 if Has (opts un) parseWSPCData \<or> length trimmed > 0
                 then Builder_appendText trimmed n un s
                 else (None, un, s)))"

definition Builder_End :: "error option \<Rightarrow> Builder \<Rightarrow> store \<Rightarrow> error option" where
  "Builder_End err un s = (if err = Some EOF then None else err)"

subsection \<open>What it means that a Text child was appended\<close>

text \<open>
  The outcome \<open>r\<close> of a handler run on Builder \<open>un\<close> and store \<open>s\<close> appended a Text child
  holding \<open>d\<close> to the node \<open>n\<close> whose children were \<open>xs\<close>: no error, the Builder
  unchanged, one node allocated, holding \<open>d\<close>, the children of \<open>n\<close> now \<open>xs\<close> followed by
  that node, and every other payload as before.
\<close>

definition TextChildAppended ::
  "nat \<Rightarrow> nat list \<Rightarrow> string \<Rightarrow> Builder \<Rightarrow> store \<Rightarrow> error option \<times> Builder \<times> store \<Rightarrow> bool" where
  "TextChildAppended n xs d un s r \<longleftrightarrow>
     (case r of (e, un', s') \<Rightarrow>
        e = None \<and> un' = un \<and> nextAddr s' = Suc (nextAddr s) \<and>
        val (cells s' (nextAddr s)) = ValText d \<and>
        childList (cells s') n (xs @ [nextAddr s]) \<and>
        (\<forall>a. a \<noteq> nextAddr s \<longrightarrow> val (cells s' a) = val (cells s a)))"

text \<open>A trimming function for the sample runs: it strips the six ASCII white space bytes.\<close>

definition trimSpaceASCII :: "string \<Rightarrow> string" where
  "trimSpaceASCII s =
     (let sp = (\<lambda>c. c \<in> set [CHR 0x09, CHR 0x0A, CHR 0x0B, CHR 0x0C, CHR 0x0D, CHR '' ''])
      in rev (dropWhile sp (rev (dropWhile sp s))))"

text \<open>The sample document \<open>exDocA\<close> with the allocator at address 4, and a Builder whose
  cursor is the element \<open>a\<close>.\<close>

definition exStore :: store where
  "exStore = \<lparr>cells = exDocA, nextAddr = 4\<rparr>"

definition exBuilder :: "bitflag \<Rightarrow> Builder" where
  "exBuilder f = \<lparr>Node = Some 1, opts = f\<rparr>"

section \<open>The JSON-to-token bridge (dom/json_decoder.go)\<close>

text \<open>
  The bridge reads its input through \<^verbatim>\<open>encoding/json\<close>'s \<^verbatim>\<open>Decoder\<close>, which is outside the
  repository.  The input is therefore the sequence of tokens that \<^verbatim>\<open>Token()\<close> returns for a
  well-formed document: delimiters, strings, booleans, numbers (as \<^verbatim>\<open>json.Number\<close>, since
  both entry points call \<^verbatim>\<open>UseNumber\<close>) and null.  \<^verbatim>\<open>Token()\<close> removes the first token and
  returns \<^verbatim>\<open>io.EOF\<close> on an empty input; \<^verbatim>\<open>More()\<close> says that the next token is not a closing
  bracket or brace.
\<close>

datatype jtoken = Delim char | JString string | JBool bool | JNumber string | JNull

text \<open>The three state functions, as values; a nil function is \<open>None\<close>.\<close>

datatype jsonDecoderFn = FnStart | FnObject | FnArray

record jdState =
  fn :: "jsonDecoderFn option"
  key :: string

text \<open>
  The methods of the interface \<^verbatim>\<open>TokenDecoder\<close> that the bridge calls, over the state \<open>'s\<close>
  of the implementation.
\<close>

record 's TokenDecoder =
  StartElement :: "Name \<Rightarrow> Attr list \<Rightarrow> 's \<Rightarrow> error option \<times> 's"
  EndElement :: "Name \<Rightarrow> 's \<Rightarrow> error option \<times> 's"
  CharData :: "string \<Rightarrow> 's \<Rightarrow> error option \<times> 's"
  End :: "error option \<Rightarrow> 's \<Rightarrow> error option"

record 's JSONDecoder =
  tokens :: "jtoken list"
  td :: 's
  jerror :: "error option"
  stack :: "jdState list"

definition More :: "'s JSONDecoder \<Rightarrow> bool" where
  "More d = (case tokens d of
               [] \<Rightarrow> False
             | t # ts \<Rightarrow> t \<noteq> Delim CHR '']'' \<and> t \<noteq> Delim CHR ''}'')"

text \<open>
  \<^verbatim>\<open>strings.Index(input, ":")\<close> is the length of the longest prefix without a colon, when
  the input has a colon; the split happens only for \<^verbatim>\<open>idx > 0\<close>.
\<close>

definition jsTagToName :: "string \<Rightarrow> Name" where
  "jsTagToName input =
     (let idx = length (takeWhile (\<lambda>c. c \<noteq> CHR '':'') input) in
      if idx < length input \<and> idx > 0
      then \<lparr>Space = take idx input, Local = drop (idx + 1) input\<rparr>
      else \<lparr>Space = [], Local = input\<rparr>)"

definition push :: "jdState \<Rightarrow> 's JSONDecoder \<Rightarrow> 's JSONDecoder" where
  "push jds d = d\<lparr>stack := jds # stack d\<rparr>"

text \<open>\<^verbatim>\<open>pop\<close> on an empty stack returns the zero \<^verbatim>\<open>jdState\<close>.\<close>

definition pop :: "'s JSONDecoder \<Rightarrow> jdState \<times> 's JSONDecoder" where
  "pop d = (case stack d of
              [] \<Rightarrow> (\<lparr>fn = None, key = []\<rparr>, d)
            | jds # rest \<Rightarrow> (jds, d\<lparr>stack := rest\<rparr>))"

definition bail :: "error option \<Rightarrow> 's JSONDecoder \<Rightarrow> jsonDecoderFn option \<times> 's JSONDecoder" where
  "bail err d = (None, d\<lparr>jerror := err\<rparr>)"

definition decode :: "'s TokenDecoder \<Rightarrow> Name \<Rightarrow> string \<Rightarrow> 's \<Rightarrow> error option \<times> 's" where
  "decode T name v s =
     (case StartElement T name [] s of
        (Some err, s1) \<Rightarrow> (Some err, s1)
      | (None, s1) \<Rightarrow>
          (case CharData T v s1 of
             (Some err, s2) \<Rightarrow> (Some err, s2)
           | (None, s2) \<Rightarrow> EndElement T name s2))"

text \<open>\<^verbatim>\<open>fmt.Sprintf("%v", value)\<close> on a bool.\<close>

definition fmtBool :: "bool \<Rightarrow> string" where
  "fmtBool b = (if b then ''true'' else ''false'')"

definition jsDecodeStart :: "'s JSONDecoder \<Rightarrow> jsonDecoderFn option \<times> 's JSONDecoder" where
  "jsDecodeStart d =
     (case tokens d of
        [] \<Rightarrow> bail (Some EOF) d
      | t # ts \<Rightarrow>
          let d1 = d\<lparr>tokens := ts\<rparr> in
          if t = Delim CHR ''{'' then (Some FnObject, d1)
          else if t = Delim CHR ''['' then (Some FnArray, d1)
          else bail (Some (Errorf ''unexpected JSON token'')) d1)"

text \<open>
  \<^verbatim>\<open>jsDecodeObject\<close> reads key and value with two calls of \<^verbatim>\<open>Token()\<close> and checks the errors
  afterwards; when only the second call fails it bails with the first call's error, which
  is nil.  A scalar value is decoded on the spot and the loop goes on; an array or object
  value pushes the return state and leaves the function.
\<close>

function jsDecodeObject :: "'s TokenDecoder \<Rightarrow> 's JSONDecoder \<Rightarrow> jsonDecoderFn option \<times> 's JSONDecoder" where
  "jsDecodeObject T d =
     (if More d then
        (case tokens d of
           [] \<Rightarrow> bail (Some EOF) d
         | [t1] \<Rightarrow> bail None (d\<lparr>tokens := []\<rparr>)
         | t1 # t2 # ts \<Rightarrow>
             let d1 = d\<lparr>tokens := ts\<rparr> in
             (case t1 of
                JString k \<Rightarrow>
                  let name = jsTagToName k in
                  (case t2 of
                     Delim c \<Rightarrow>
                       if c = CHR ''['' then (Some FnArray, push \<lparr>fn = Some FnObject, key = k\<rparr> d1)
                       else if c = CHR ''{'' then
                         (let d2 = push \<lparr>fn = Some FnObject, key = k\<rparr> d1 in
                          case StartElement T name [] (td d2) of
                            (Some err, s) \<Rightarrow> bail (Some err) (d2\<lparr>td := s\<rparr>)
                          | (None, s) \<Rightarrow> (Some FnObject, d2\<lparr>td := s\<rparr>))
                       else bail (Some (Errorf ''unexpected delimiter type'')) d1
                   | JString v \<Rightarrow>
                       (case decode T name v (td d1) of
                          (Some err, s) \<Rightarrow> bail (Some err) (d1\<lparr>td := s\<rparr>)
                        | (None, s) \<Rightarrow> jsDecodeObject T (d1\<lparr>td := s\<rparr>))
                   | JBool b \<Rightarrow>
                       (case decode T name (fmtBool b) (td d1) of
                          (Some err, s) \<Rightarrow> bail (Some err) (d1\<lparr>td := s\<rparr>)
                        | (None, s) \<Rightarrow> jsDecodeObject T (d1\<lparr>td := s\<rparr>))
                   | JNumber v \<Rightarrow>
                       (case decode T name v (td d1) of
                          (Some err, s) \<Rightarrow> bail (Some err) (d1\<lparr>td := s\<rparr>)
                        | (None, s) \<Rightarrow> jsDecodeObject T (d1\<lparr>td := s\<rparr>))
                   | JNull \<Rightarrow>
                       (case decode T name [] (td d1) of
                          (Some err, s) \<Rightarrow> bail (Some err) (d1\<lparr>td := s\<rparr>)
                        | (None, s) \<Rightarrow> jsDecodeObject T (d1\<lparr>td := s\<rparr>)))
              | _ \<Rightarrow> bail (Some (Errorf ''bad JSON object key type'')) d1))
      else
        (case tokens d of
           [] \<Rightarrow> bail (Some EOF) d
         | t # ts \<Rightarrow>
             (case pop (d\<lparr>tokens := ts\<rparr>) of
                (prev, d1) \<Rightarrow>
                  if key prev \<noteq> [] then
                    (case EndElement T (jsTagToName (key prev)) (td d1) of
                       (Some err, s) \<Rightarrow> bail (Some err) (d1\<lparr>td := s\<rparr>)
                     | (None, s) \<Rightarrow> (fn prev, d1\<lparr>td := s\<rparr>))
                  else (fn prev, d1))))"
  by pat_completeness auto
termination
  by (relation "measure (\<lambda>(T, d). length (tokens d))") auto

text \<open>
  \<^verbatim>\<open>jsDecodeArray\<close> peeks at the pending key by popping and pushing the top of the stack.
  Every delimiter other than an opening brace, so also an opening bracket, is the error
  \<^verbatim>\<open>decoding of nested arrays unsupported\<close>.
\<close>

function jsDecodeArray :: "'s TokenDecoder \<Rightarrow> 's JSONDecoder \<Rightarrow> jsonDecoderFn option \<times> 's JSONDecoder" where
  "jsDecodeArray T d =
     (if More d then
        (case tokens d of
           [] \<Rightarrow> bail (Some EOF) d
         | t # ts \<Rightarrow>
             (case pop (d\<lparr>tokens := ts\<rparr>) of
                (prev, d0) \<Rightarrow>
                  let k = key prev;
                      name = jsTagToName (key prev);
                      d1 = push prev d0
                  in
                  (case t of
                     Delim c \<Rightarrow>
                       if c = CHR ''{'' then
                         (let d2 = push \<lparr>fn = Some FnArray, key = k\<rparr> d1 in
                          case StartElement T name [] (td d2) of
                            (Some err, s) \<Rightarrow> bail (Some err) (d2\<lparr>td := s\<rparr>)
                          | (None, s) \<Rightarrow> (Some FnObject, d2\<lparr>td := s\<rparr>))
                       else bail (Some (Errorf ''decoding of nested arrays unsupported'')) d1
                   | JString v \<Rightarrow>
                       (case decode T name v (td d1) of
                          (Some err, s) \<Rightarrow> bail (Some err) (d1\<lparr>td := s\<rparr>)
                        | (None, s) \<Rightarrow> jsDecodeArray T (d1\<lparr>td := s\<rparr>))
                   | JBool b \<Rightarrow>
                       (case decode T name (fmtBool b) (td d1) of
                          (Some err, s) \<Rightarrow> bail (Some err) (d1\<lparr>td := s\<rparr>)
                        | (None, s) \<Rightarrow> jsDecodeArray T (d1\<lparr>td := s\<rparr>))
                   | JNumber v \<Rightarrow>
                       (case decode T name v (td d1) of
                          (Some err, s) \<Rightarrow> bail (Some err) (d1\<lparr>td := s\<rparr>)
                        | (None, s) \<Rightarrow> jsDecodeArray T (d1\<lparr>td := s\<rparr>))
                   | JNull \<Rightarrow>
                       (case decode T name [] (td d1) of
                          (Some err, s) \<Rightarrow> bail (Some err) (d1\<lparr>td := s\<rparr>)
                        | (None, s) \<Rightarrow> jsDecodeArray T (d1\<lparr>td := s\<rparr>)))))
      else
        (case tokens d of
           [] \<Rightarrow> bail (Some EOF) d
         | t # ts \<Rightarrow> (case pop (d\<lparr>tokens := ts\<rparr>) of (prev, d1) \<Rightarrow> (fn prev, d1))))"
  by pat_completeness auto
termination
  by (relation "measure (\<lambda>(T, d). length (tokens d))")
     (auto simp: pop_def push_def split: list.splits)

text \<open>
  \<^verbatim>\<open>for state := jsDecodeStart; state != nil; state = state(d) {}\<close>.  The loop is a partial
  function; that it returns on the inputs below is part of what is proved there.
\<close>

definition callFn :: "'s TokenDecoder \<Rightarrow> jsonDecoderFn \<Rightarrow> 's JSONDecoder \<Rightarrow> jsonDecoderFn option \<times> 's JSONDecoder" where
  "callFn T f d =
     (case f of
        FnStart \<Rightarrow> jsDecodeStart d
      | FnObject \<Rightarrow> jsDecodeObject T d
      | FnArray \<Rightarrow> jsDecodeArray T d)"

partial_function (option) runStates ::
  "'s TokenDecoder \<Rightarrow> jsonDecoderFn option \<Rightarrow> 's JSONDecoder \<Rightarrow> 's JSONDecoder option" where
  "runStates T state d =
     (case state of
        None \<Rightarrow> Some d
      | Some f \<Rightarrow> (case callFn T f d of (next, d1) \<Rightarrow> runStates T next d1))"

definition runJSDecoder :: "'s TokenDecoder \<Rightarrow> 's JSONDecoder \<Rightarrow> (error option \<times> 's JSONDecoder) option" where
  "runJSDecoder T d = map_option (\<lambda>d1. (jerror d1, d1)) (runStates T (Some FnStart) d)"

definition Run :: "'s TokenDecoder \<Rightarrow> 's JSONDecoder \<Rightarrow> (error option \<times> 's JSONDecoder) option" where
  "Run T d = map_option (\<lambda>(err, d1). (End T err (td d1), d1)) (runJSDecoder T d)"

definition UnmarshalJSON ::
  "'s TokenDecoder \<Rightarrow> ('s \<Rightarrow> error option) \<Rightarrow> jtoken list \<Rightarrow> 's \<Rightarrow> (error option \<times> 's) option" where
  "UnmarshalJSON T Begin b s =
     (if b = [JNull] then Some (None, s)
      else
        (case Begin s of
           Some err \<Rightarrow> Some (Some err, s)
         | None \<Rightarrow>
             map_option (\<lambda>(err, d1). (End T err (td d1), td d1))
               (Run T \<lparr>tokens = b, td = s, jerror = None, stack = []\<rparr>)))"

text \<open>The Builder as a \<^verbatim>\<open>TokenDecoder\<close>.\<close>

definition BuilderDecoder :: "(string \<Rightarrow> string) \<Rightarrow> (Builder \<times> store) TokenDecoder" where
  "BuilderDecoder TrimSpace =
     \<lparr>StartElement = (\<lambda>name attrs (un, s). Builder_StartElement name attrs un s),
      EndElement = (\<lambda>name (un, s). Builder_EndElement un s),
      CharData = (\<lambda>cd (un, s). Builder_CharData TrimSpace cd un s),
      End = (\<lambda>err (un, s). Builder_End err un s)\<rparr>"

definition BuilderBegin :: "Builder \<times> store \<Rightarrow> error option" where
  "BuilderBegin = (\<lambda>(un, s). fst (Builder_Begin un s))"

section \<open>The tree-order encoder (dom/marshaler.go)\<close>

text \<open>The tokens of package flexml.\<close>

datatype Token =
    xml_StartElement Name "Attr list"
  | xml_EndElement Name
  | xml_CharData string
  | xml_Comment string
  | xml_ProcInst ProcInst
  | xml_Directive string

text \<open>
  The field \<^verbatim>\<open>emitExplicitNS\<close> is read by \<^verbatim>\<open>encodeNodeValueEnd\<close>; the option
  \<^verbatim>\<open>WithExplicitNS\<close> sets the flag \<^verbatim>\<open>marshalExplicitNS\<close> in \<^verbatim>\<open>opts\<close>, which
  \<^verbatim>\<open>encodeNodeValueStart\<close> reads.
\<close>

record Marshaler =
  MNode :: "nat option"
  mopts :: bitflag
  emitExplicitNS :: bool

definition marshalExplicitNS :: bitflag where "marshalExplicitNS = push_bit 0 1"

definition xmlnsDefault :: Name where
  "xmlnsDefault = \<lparr>Space = [], Local = ''xmlns''\<rparr>"

text \<open>\<^verbatim>\<open>xmlName\<close>: the payload types with a \<^verbatim>\<open>Name\<close> method are element and attribute.\<close>

definition xmlName :: "heap \<Rightarrow> nat \<Rightarrow> Name" where
  "xmlName h n =
     (case val (h n) of
        ValElement name p \<Rightarrow> name
      | ValAttribute a \<Rightarrow> AttrName a
      | _ \<Rightarrow> \<lparr>Space = [], Local = []\<rparr>)"

text \<open>
  The name a tag is written with: the namespace is dropped when the node has a parent, the
  explicit-namespace option is off and the parent's name has the same namespace.
\<close>

definition elideSpace :: "heap \<Rightarrow> nat \<Rightarrow> bool \<Rightarrow> Name" where
  "elideSpace h n explicitNS =
     (let name = xmlName h n in
      case parent (h n) of
        None \<Rightarrow> name
      | Some p \<Rightarrow> if \<not> explicitNS \<and> Space (xmlName h p) = Space name
                  then name\<lparr>Space := []\<rparr> else name)"

definition endElementForNode :: "heap \<Rightarrow> nat \<Rightarrow> bool \<Rightarrow> Token" where
  "endElementForNode h n explicitNS = xml_EndElement (elideSpace h n explicitNS)"

text \<open>
  The attribute loop of \<^verbatim>\<open>encodeNodeValueStart\<close>: it follows \<^verbatim>\<open>nextSib\<close> from
  \<^verbatim>\<open>n.firstAttr\<close> and asserts that every payload is an attribute.
\<close>

partial_function (option) collectAttrs ::
  "heap \<Rightarrow> nat option \<Rightarrow> Attr list \<Rightarrow> (error + Attr list) option" where
  "collectAttrs h it attrs =
     (case it of
        None \<Rightarrow> Some (Inr attrs)
      | Some i \<Rightarrow>
          (case val (h i) of
             ValAttribute this \<Rightarrow>
               collectAttrs h (nextSib (h i))
                 (if AttrName this \<noteq> xmlnsDefault then attrs @ [this] else attrs)
           | _ \<Rightarrow> Some (Inl TypeAssertionFailed)))"

text \<open>
  The closures on the work stack are \<^verbatim>\<open>encodeNodeValueStart(e, enc, n)\<close> and
  \<^verbatim>\<open>encodeNodeValueEnd(e, enc, n)\<close>.  The encoder \<^verbatim>\<open>enc\<close> belongs to package flexml and is a
  parameter: \<open>EncodeToken\<close> takes a token and the encoder's state and returns the error and
  the state afterwards.
\<close>

datatype thunk = ValueStart "nat option" | ValueEnd nat

definition encodeNodeValueStart ::
  "Marshaler \<Rightarrow> (Token \<Rightarrow> 'e \<Rightarrow> error option \<times> 'e) \<Rightarrow> heap \<Rightarrow> nat option \<Rightarrow> 'e
     \<Rightarrow> (nat option \<times> error option \<times> 'e) option" where
  "encodeNodeValueStart e EncodeToken h np es =
     (case np of
        None \<Rightarrow> Some (None, Some NilDereference, es)
      | Some n \<Rightarrow>
          (case val (h n) of
             ValElement nm p \<Rightarrow>
               Option.bind (collectAttrs h (firstAttr (h n)) [])
                 (\<lambda>r. case r of
                        Inl err \<Rightarrow> Some (Some n, Some err, es)
                      | Inr attrs \<Rightarrow>
                          (case EncodeToken
                                  (xml_StartElement
                                     (elideSpace h n (Has (mopts e) marshalExplicitNS)) attrs) es of
                             (err, es1) \<Rightarrow> Some (Some n, err, es1)))
           | ValComment c \<Rightarrow>
               (case EncodeToken (xml_Comment c) es of (err, es1) \<Rightarrow> Some (Some n, err, es1))
           | ValText t \<Rightarrow>
               (case EncodeToken (xml_CharData t) es of (err, es1) \<Rightarrow> Some (Some n, err, es1))
           | ValDeclaration pi \<Rightarrow>
               (case EncodeToken (xml_ProcInst pi) es of (err, es1) \<Rightarrow> Some (Some n, err, es1))
           | ValProcInst pi \<Rightarrow>
               (case EncodeToken (xml_ProcInst pi) es of (err, es1) \<Rightarrow> Some (Some n, err, es1))
           | ValDocumentFragment \<Rightarrow> Some (Some n, None, es)
           | ValDocument \<Rightarrow> Some (Some n, None, es)
           | _ \<Rightarrow>
               Some (Some n,
                     Some (Errorf (''MarshalXML called on unexpected node type '' @
                                   String (NodeTypeOf h n))), es)))"

definition encodeNodeValueEnd ::
  "Marshaler \<Rightarrow> (Token \<Rightarrow> 'e \<Rightarrow> error option \<times> 'e) \<Rightarrow> heap \<Rightarrow> nat \<Rightarrow> 'e
     \<Rightarrow> (nat option \<times> error option \<times> 'e) option" where
  "encodeNodeValueEnd e EncodeToken h n es =
     (if NodeTypeOf h n = NodeTypeElement then
        (case EncodeToken (endElementForNode h n (emitExplicitNS e)) es of
           (err, es1) \<Rightarrow> Some (None, err, es1))
      else Some (None, None, es))"

definition runThunk ::
  "Marshaler \<Rightarrow> (Token \<Rightarrow> 'e \<Rightarrow> error option \<times> 'e) \<Rightarrow> heap \<Rightarrow> thunk \<Rightarrow> 'e
     \<Rightarrow> (nat option \<times> error option \<times> 'e) option" where
  "runThunk e EncodeToken h t es =
     (case t of
        ValueStart np \<Rightarrow> encodeNodeValueStart e EncodeToken h np es
      | ValueEnd n \<Rightarrow> encodeNodeValueEnd e EncodeToken h n es)"

text \<open>
  \<^verbatim>\<open>for it := n.firstChild.prevSib.prevSib; it.nextSib != nil; it = it.prevSib\<close>: the
  children before the last, pushed from the tail towards the head.  The head of the list
  \<open>s\<close> is the top of the stack.
\<close>

partial_function (option) pushSiblings ::
  "heap \<Rightarrow> nat option \<Rightarrow> thunk list \<Rightarrow> (error + thunk list) option" where
  "pushSiblings h it s =
     (case it of
        None \<Rightarrow> Some (Inl NilDereference)
      | Some i \<Rightarrow>
          if nextSib (h i) \<noteq> None
          then pushSiblings h (prevSib (h i)) (ValueStart (Some i) # s)
          else Some (Inr s))"

partial_function (option) treeLoop ::
  "Marshaler \<Rightarrow> (Token \<Rightarrow> 'e \<Rightarrow> error option \<times> 'e) \<Rightarrow> heap \<Rightarrow> thunk list \<Rightarrow> 'e
     \<Rightarrow> (error option \<times> 'e) option" where
  "treeLoop e EncodeToken h s es =
     (case s of
        [] \<Rightarrow> Some (None, es)
      | t # rest \<Rightarrow>
          Option.bind (runThunk e EncodeToken h t es)
            (\<lambda>r. case r of
               (np, Some err, es1) \<Rightarrow> Some (Some err, es1)
             | (None, None, es1) \<Rightarrow> treeLoop e EncodeToken h rest es1
             | (Some n, None, es1) \<Rightarrow>
                 (let s1 = ValueEnd n # rest in
                  case firstChild (h n) of
                    None \<Rightarrow> treeLoop e EncodeToken h s1 es1
                  | Some fc \<Rightarrow>
                      (let s2 = ValueStart (prevSib (h fc)) # s1 in
                       case prevSib (h fc) of
                         None \<Rightarrow> Some (Some NilDereference, es1)
                       | Some l \<Rightarrow>
                           Option.bind (pushSiblings h (prevSib (h l)) s2)
                             (\<lambda>q. case q of
                                Inl err \<Rightarrow> Some (Some err, es1)
                              | Inr s3 \<Rightarrow> treeLoop e EncodeToken h s3 es1)))))"

definition treeOrder ::
  "Marshaler \<Rightarrow> (Token \<Rightarrow> 'e \<Rightarrow> error option \<times> 'e) \<Rightarrow> heap \<Rightarrow> 'e \<Rightarrow> (error option \<times> 'e) option" where
  "treeOrder e EncodeToken h es =
     (case MNode e of
        None \<Rightarrow> Some (Some NilDereference, es)
      | Some n \<Rightarrow> treeLoop e EncodeToken h [ValueStart (Some n)] es)"

text \<open>The recursion equations of the partial functions, for evaluation.\<close>

declare runStates.simps [code] treeLoop.simps [code] pushSiblings.simps [code]
  collectAttrs.simps [code]

section \<open>Sample runs\<close>

text \<open>
  Two encoders for the sample runs, whose state is the list of tokens accepted so far.
  \<open>recordTokens\<close> accepts every token, so that a run with it shows all the tokens the
  program hands to \<^verbatim>\<open>EncodeToken\<close>.  \<open>checkedTokens\<close> refuses a start or end tag whose local
  name is empty, as the encoder of \<^verbatim>\<open>encoding/xml\<close> does, from which flexml derives.
\<close>

definition recordTokens :: "Token \<Rightarrow> Token list \<Rightarrow> error option \<times> Token list" where
  "recordTokens t out = (None, out @ [t])"

definition checkedTokens :: "Token \<Rightarrow> Token list \<Rightarrow> error option \<times> Token list" where
  "checkedTokens t out =
     (case t of
        xml_StartElement nm as \<Rightarrow>
          if Local nm = [] then (Some (Errorf ''xml: start tag with no name''), out)
          else (None, out @ [t])
      | xml_EndElement nm \<Rightarrow>
          if Local nm = [] then (Some (Errorf ''xml: end tag with no name''), out)
          else (None, out @ [t])
      | _ \<Rightarrow> (None, out @ [t]))"

text \<open>
  \<^verbatim>\<open>doc := NewDocument(ctx); builder := NewBuilder(doc)\<close>: the document is at address 0 and
  no option is set.
\<close>

definition docStore :: store where
  "docStore = \<lparr>cells = (\<lambda>a. newNode ValNil)(0 := newNode ValDocument), nextAddr = 1\<rparr>"

definition docBuilder :: Builder where
  "docBuilder = \<lparr>Node = Some 0, opts = 0\<rparr>"

definition decodeJSON :: "jtoken list \<Rightarrow> (error option \<times> Builder \<times> store) option" where
  "decodeJSON b =
     UnmarshalJSON (BuilderDecoder trimSpaceASCII) BuilderBegin b (docBuilder, docStore)"

definition marshalDoc ::
  "(Token \<Rightarrow> Token list \<Rightarrow> error option \<times> Token list) \<Rightarrow> store
     \<Rightarrow> (error option \<times> Token list) option" where
  "marshalDoc enc s =
     treeOrder \<lparr>MNode = Some 0, mopts = 0, emitExplicitNS = False\<rparr> enc (cells s) []"

text \<open>
  The token sequences of \<^verbatim>\<open>{"foo": []}\<close>, \<^verbatim>\<open>{"foo": {}}\<close>, \<^verbatim>\<open>{"a:b": 1, "a:": 2}\<close> and
  \<^verbatim>\<open>{"foo": [[1]]}\<close>.
\<close>

definition jsonEmptyArray :: "jtoken list" where
  "jsonEmptyArray = [Delim CHR ''{'', JString ''foo'', Delim CHR ''['', Delim CHR '']'', Delim CHR ''}'']"

definition jsonEmptyObject :: "jtoken list" where
  "jsonEmptyObject = [Delim CHR ''{'', JString ''foo'', Delim CHR ''{'', Delim CHR ''}'', Delim CHR ''}'']"

definition jsonBadName :: "jtoken list" where
  "jsonBadName = [Delim CHR ''{'', JString ''a:b'', JNumber ''1'', JString ''a:'', JNumber ''2'', Delim CHR ''}'']"

definition jsonNested :: "jtoken list" where
  "jsonNested = [Delim CHR ''{'', JString ''foo'', Delim CHR ''['', Delim CHR ''['', JNumber ''1'', Delim CHR '']'', Delim CHR '']'', Delim CHR ''}'']"

definition reencodeJSON ::
  "(Token \<Rightarrow> Token list \<Rightarrow> error option \<times> Token list) \<Rightarrow> jtoken list
     \<Rightarrow> (error option \<times> Token list) option" where
  "reencodeJSON enc b = Option.bind (decodeJSON b) (\<lambda>(e, un, s). marshalDoc enc s)"

text \<open>The loop of \<^verbatim>\<open>iterChildren\<close> (dom/comment.go), collecting the nodes it visits.\<close>

partial_function (option) iterChildren :: "heap \<Rightarrow> nat option \<Rightarrow> nat list \<Rightarrow> nat list option" where
  "iterChildren h it acc =
     (case it of None \<Rightarrow> Some acc | Some i \<Rightarrow> iterChildren h (nextSib (h i)) (acc @ [i]))"

declare iterChildren.simps [code]

definition Children :: "heap \<Rightarrow> nat \<Rightarrow> nat list option" where
  "Children h n = iterChildren h (firstChild (h n)) []"

definition decodedStore :: "jtoken list \<Rightarrow> heap" where
  "decodedStore b = (case decodeJSON b of Some (e, un, s) \<Rightarrow> cells s | None \<Rightarrow> (\<lambda>a. newNode ValNil))"

section \<open>The schema-guided decoder (datastore/decoder.go, modules/modules.go)\<close>

subsection \<open>Schema entries and the module collection\<close>

text \<open>
  \<^verbatim>\<open>yang.Entry\<close> and \<^verbatim>\<open>yang.Modules\<close> belong to package goyang.  Of an entry the decoder reads
  its kind, the map \<^verbatim>\<open>Dir\<close> of its children and the name of its namespace; a map is an
  association list, looked up with \<open>map_of\<close> and ranged over in the order of the list (Go
  leaves the order of \<^verbatim>\<open>range\<close> over a map open).  Of a module the collection reads its
  namespace, which may be nil, and its entry \<^verbatim>\<open>yang.ToEntry(mod)\<close>.
\<close>

datatype EntryKind =
    LeafEntry | DirectoryEntry | AnyDataEntry | AnyXMLEntry | CaseEntry | ChoiceEntry
  | InputEntry | NotificationEntry | OutputEntry | DeviateEntry

datatype Entry = Entry (Kind: EntryKind) (EntryName: string) (Namespace: string)
                       (Dir: "(string \<times> Entry) list")

record Module =
  ModNamespace :: "string option"
  ToEntry :: Entry

record Collection =
  ms :: "(string \<times> Module) list"
  processed :: bool

definition ModuleEntry :: "Collection \<Rightarrow> string \<Rightarrow> error + Entry" where
  "ModuleEntry c name =
     (if \<not> processed c then Inl (Errorf ''must call Process first'')
      else case map_of (ms c) name of
             Some m \<Rightarrow> Inr (ToEntry m)
           | None \<Rightarrow> Inl (Errorf ''not found''))"

text \<open>
  \<^verbatim>\<open>RootEntry\<close>: \<^verbatim>\<open>IterLatest\<close> visits the modules whose name has no \<^verbatim>\<open>@\<close>; the callback skips
  a module with another namespace and stops at the first child entry with the local name.
\<close>

fun findLocal :: "string \<Rightarrow> (string \<times> Entry) list \<Rightarrow> Entry option" where
  "findLocal l [] = None"
| "findLocal l ((local, e) # rest) = (if l = local then Some e else findLocal l rest)"

fun IterLatestRoot :: "Name \<Rightarrow> (string \<times> Module) list \<Rightarrow> Entry option" where
  "IterLatestRoot name [] = None"
| "IterLatestRoot name ((nm, m) # rest) =
     (if CHR ''@'' \<notin> set nm \<and> ModNamespace m = Some (Space name) \<and>
         findLocal (Local name) (Dir (ToEntry m)) \<noteq> None
      then findLocal (Local name) (Dir (ToEntry m))
      else IterLatestRoot name rest)"

definition RootEntry :: "Collection \<Rightarrow> Name \<Rightarrow> error + Entry" where
  "RootEntry c name =
     (if \<not> processed c then Inl (Errorf ''must call Process first'')
      else case IterLatestRoot name (ms c) of
             Some e \<Rightarrow> Inr e
           | None \<Rightarrow> Inl (Errorf ''not found''))"

text \<open>The verb \<^verbatim>\<open>%q\<close> of \<^verbatim>\<open>Errorf\<close>, for strings that need no escaping.\<close>

definition quoted :: "string \<Rightarrow> string" where
  "quoted s = [CHR 0x22] @ s @ [CHR 0x22]"

definition errUnexpectedElementName :: "Name \<Rightarrow> error" where
  "errUnexpectedElementName n =
     (if Space n \<noteq> []
      then Errorf (''unexpected child element <'' @ Local n @ '' xmlns='' @ quoted (Space n) @ ''>'')
      else Errorf (''unexpected child element <'' @ Local n @ ''>''))"

definition isData :: "Entry \<Rightarrow> bool" where
  "isData e = (Kind e = LeafEntry \<or> Kind e = DirectoryEntry \<or> Kind e = AnyXMLEntry \<or>
               Kind e = AnyDataEntry)"

definition lookupData :: "(string \<times> Entry) list \<Rightarrow> string \<Rightarrow> Entry option" where
  "lookupData dir l =
     (case map_of dir l of
        Some next \<Rightarrow> if isData next then Some next else None
      | None \<Rightarrow> None)"

text \<open>
  The package-level \<^verbatim>\<open>dataChild\<close>: a direct data child, else for every child \<open>ch\<close> a data
  child of \<open>ch\<close> when \<open>ch\<close> is a choice or case, else a data child of a case below \<open>ch\<close>.
\<close>

fun searchCases :: "string \<Rightarrow> (string \<times> Entry) list \<Rightarrow> Entry option" where
  "searchCases l [] = None"
| "searchCases l ((nm, chch) # rest) =
     (if Kind chch = CaseEntry \<and> lookupData (Dir chch) l \<noteq> None
      then lookupData (Dir chch) l
      else searchCases l rest)"

fun searchChoices :: "string \<Rightarrow> (string \<times> Entry) list \<Rightarrow> Entry option" where
  "searchChoices l [] = None"
| "searchChoices l ((nm, ch) # rest) =
     (if (Kind ch = ChoiceEntry \<or> Kind ch = CaseEntry) \<and> lookupData (Dir ch) l \<noteq> None
      then lookupData (Dir ch) l
      else case searchCases l (Dir ch) of
             Some next \<Rightarrow> Some next
           | None \<Rightarrow> searchChoices l rest)"

definition dataChild :: "Entry option \<Rightarrow> Name \<Rightarrow> Entry option" where
  "dataChild eo n =
     (case eo of
        None \<Rightarrow> None
      | Some e \<Rightarrow>
          (case lookupData (Dir e) (Local n) of
             Some next \<Rightarrow> Some next
           | None \<Rightarrow> searchChoices (Local n) (Dir e)))"

subsection \<open>Name resolution\<close>

datatype nameLookup = rfc6020Lookup | rfc7951Lookup

definition lookupName :: "nameLookup \<Rightarrow> Collection \<Rightarrow> Name \<Rightarrow> Name \<times> error option" where
  "lookupName f c n =
     (case f of
        rfc6020Lookup \<Rightarrow> (n, None)
      | rfc7951Lookup \<Rightarrow>
          if Space n = [] then (n, None)
          else (case ModuleEntry c (Space n) of
                  Inr m \<Rightarrow> (\<lparr>Space = Namespace m, Local = Local n\<rparr>, None)
                | Inl err \<Rightarrow>
                    (n, Some (Errorf (''unexpected element <'' @ Local n @ ''> in unknown module '' @
                                      quoted (Space n))))))"

subsection \<open>The decoder and its token handlers\<close>

text \<open>
  A restore frame is a closure over \<^verbatim>\<open>oldSchema\<close> and \<^verbatim>\<open>oldNode\<close>; the closure pushed on
  the failure path also sets \<^verbatim>\<open>skip = false\<close>.  \<^verbatim>\<open>pop\<close> indexes the slice without a length
  check.  The field \<^verbatim>\<open>childname\<close> is a function value, nil until \<^verbatim>\<open>Initialize\<close> has set it.
\<close>

datatype frame = Frame "Entry option" "nat option" bool

record Decoder =
  DNode :: "nat option"
  Modules :: Collection
  schema :: "Entry option"
  dstack :: "frame list"
  skip :: bool
  errors :: "error list"
  childname :: "nameLookup option"

definition runFrame :: "frame \<Rightarrow> Decoder \<Rightarrow> Decoder" where
  "runFrame f un =
     (case f of Frame oldSchema oldNode resetSkip \<Rightarrow>
        un\<lparr>schema := oldSchema, DNode := oldNode,
           skip := (if resetSkip then False else skip un)\<rparr>)"

text \<open>The method \<^verbatim>\<open>(*Decoder).dataChild\<close>.\<close>

definition Decoder_dataChild :: "Decoder \<Rightarrow> Name \<Rightarrow> error + Entry" where
  "Decoder_dataChild un n =
     (case (if schema un = None
            then (case RootEntry (Modules un) n of
                    Inl err \<Rightarrow> Inl (errUnexpectedElementName n)
                  | Inr e \<Rightarrow> Inr (Some e))
            else Inr (dataChild (schema un) n)) of
        Inl err \<Rightarrow> Inl err
      | Inr None \<Rightarrow> Inl (errUnexpectedElementName n)
      | Inr (Some candidate) \<Rightarrow>
          if Space n \<noteq> [] \<and> Namespace candidate \<noteq> Space n
          then Inl (Errorf (''unexpected child element <'' @ Local n @ ''> in namespace '' @
                            quoted (Space n) @ '' (expected namespace '' @
                            quoted (Namespace candidate) @ '')''))
          else Inr candidate)"

text \<open>
  The first lines of \<^verbatim>\<open>StartElement\<close>: \<^verbatim>\<open>un.childname\<close>, then \<^verbatim>\<open>un.dataChild\<close>; the first
  error wins.  Calling a nil \<^verbatim>\<open>childname\<close> panics.
\<close>

definition Decoder_resolve :: "nameLookup \<Rightarrow> Decoder \<Rightarrow> Name \<Rightarrow> error + (Name \<times> Entry)" where
  "Decoder_resolve lookup un n =
     (case lookupName lookup (Modules un) n of
        (name, Some err) \<Rightarrow> Inl err
      | (name, None) \<Rightarrow>
          (case Decoder_dataChild un name of
             Inl err \<Rightarrow> Inl err
           | Inr newSchema \<Rightarrow> Inr (name, newSchema)))"

definition Decoder_StartElement ::
  "Name \<Rightarrow> Attr list \<Rightarrow> Decoder \<Rightarrow> store \<Rightarrow> error option \<times> Decoder \<times> store" where
  "Decoder_StartElement seName attrs un s =
     (let oldSchema = schema un; oldNode = DNode un in
      case childname un of
        None \<Rightarrow> (Some NilDereference, un, s)
      | Some lookup \<Rightarrow>
      (case Decoder_resolve lookup un seName of
        Inr (name, newSchema) \<Rightarrow>
          if \<not> skip un then
            (case newStartElement name attrs s of
               (Some e, newElem, s1) \<Rightarrow> (Some e, un, s1)
             | (None, newElem, s1) \<Rightarrow>
                 (case DNode un of
                    None \<Rightarrow> (Some NilDereference, un, s1)
                  | Some cur \<Rightarrow>
                      (case AppendChild cur newElem (cells s1) of
                         (Some crit, h) \<Rightarrow> (Some crit, un, s1\<lparr>cells := h\<rparr>)
                       | (None, h) \<Rightarrow>
                           (None,
                            un\<lparr>schema := Some newSchema, DNode := Some newElem,
                               dstack := Frame oldSchema oldNode False # dstack un\<rparr>,
                            s1\<lparr>cells := h\<rparr>))))
          else (None, un\<lparr>dstack := Frame oldSchema oldNode False # dstack un\<rparr>, s)
      | Inl err \<Rightarrow>
          (None,
           un\<lparr>errors := errors un @ [err], skip := True,
              dstack := Frame oldSchema oldNode True # dstack un\<rparr>,
           s)))"

definition Decoder_EndElement :: "Decoder \<Rightarrow> store \<Rightarrow> error option \<times> Decoder \<times> store" where
  "Decoder_EndElement un s =
     (case dstack un of
        [] \<Rightarrow> (Some IndexOutOfRange, un, s)
      | f # rest \<Rightarrow> (None, runFrame f (un\<lparr>dstack := rest\<rparr>), s))"

definition Decoder_CharData :: "string \<Rightarrow> Decoder \<Rightarrow> store \<Rightarrow> error option \<times> Decoder \<times> store" where
  "Decoder_CharData cd un s =
     (if skip un then (None, un, s)
      else
        let notLeaf = (case schema un of None \<Rightarrow> True | Some e \<Rightarrow> Kind e \<noteq> LeafEntry);
            un1 = (if notLeaf
                   then un\<lparr>errors := errors un @
                               [Wrap ErrHierarchyRequest ''schema node is not a leaf'']\<rparr>
                   else un)
        in
        (case dstack un1 of
           [] \<Rightarrow> (Some IndexOutOfRange, un1, s)
         | update # rest \<Rightarrow>
             (case newText cd s of
                (txt, s1) \<Rightarrow>
                  (case DNode un1 of
                     None \<Rightarrow> (Some NilDereference, un1, s1)
                   | Some cur \<Rightarrow>
                       (case AppendChild cur txt (cells s1) of
                          (Some crit, h) \<Rightarrow> (Some crit, un1, s1\<lparr>cells := h\<rparr>)
                        | (None, h) \<Rightarrow> (None, runFrame update un1, s1\<lparr>cells := h\<rparr>))))))"

definition Decoder_Begin :: "Decoder \<Rightarrow> store \<Rightarrow> error option" where
  "Decoder_Begin un s =
     (if DNode un = None then Some (Errorf ''error decoding YANG data: node cursor is nil'')
      else None)"

definition Decoder_End :: "error option \<Rightarrow> Decoder \<Rightarrow> store \<Rightarrow> error option" where
  "Decoder_End err un s =
     (if err = Some EOF then
        (case DNode un of
           None \<Rightarrow> Some NilDereference
         | Some n \<Rightarrow> if Parent (cells s) n = None then None else Some ErrUnexpectedEOF)
      else err)"

text \<open>The type switch of \<^verbatim>\<open>UnmarshalXML\<close> (dom/attr.go), applied to the decoder.\<close>

definition Decoder_Token :: "Token \<Rightarrow> Decoder \<times> store \<Rightarrow> error option \<times> Decoder \<times> store" where
  "Decoder_Token t = (\<lambda>(un, s).
     case t of
       xml_StartElement name attrs \<Rightarrow> Decoder_StartElement name attrs un s
     | xml_EndElement name \<Rightarrow> Decoder_EndElement un s
     | xml_Comment c \<Rightarrow> (None, un, s)
     | xml_CharData cd \<Rightarrow> Decoder_CharData cd un s
     | xml_Directive d \<Rightarrow> (Some (Errorf ''TODO''), un, s)
     | xml_ProcInst pi \<Rightarrow> (None, un, s))"

text \<open>
  \<^verbatim>\<open>UnmarshalXML\<close> reads tokens from the tokenizer of package flexml until it returns an
  error; on a well-formed stream that error is \<^verbatim>\<open>io.EOF\<close> after the last token.
\<close>

fun tokenLoop ::
  "(Token \<Rightarrow> 's \<Rightarrow> error option \<times> 's) \<Rightarrow> (error option \<Rightarrow> 's \<Rightarrow> error option) \<Rightarrow> Token list \<Rightarrow> 's
     \<Rightarrow> error option \<times> 's" where
  "tokenLoop tdToken tdEnd [] s = (tdEnd (Some EOF) s, s)"
| "tokenLoop tdToken tdEnd (t # ts) s =
     (case tdToken t s of
        (Some err, s1) \<Rightarrow> (Some err, s1)
      | (None, s1) \<Rightarrow> tokenLoop tdToken tdEnd ts s1)"

definition UnmarshalXML ::
  "('s \<Rightarrow> error option) \<Rightarrow> (Token \<Rightarrow> 's \<Rightarrow> error option \<times> 's) \<Rightarrow> (error option \<Rightarrow> 's \<Rightarrow> error option)
     \<Rightarrow> Token list \<Rightarrow> 's \<Rightarrow> error option \<times> 's" where
  "UnmarshalXML tdBegin tdToken tdEnd ts s =
     (case tdBegin s of
        Some err \<Rightarrow> (Some err, s)
      | None \<Rightarrow> tokenLoop tdToken tdEnd ts s)"

text \<open>The same loop before the end of the stream, and the nesting depth of a token
  sequence: a sequence is balanced when every end tag has its start tag.\<close>

fun feedTokens :: "(Token \<Rightarrow> 's \<Rightarrow> error option \<times> 's) \<Rightarrow> Token list \<Rightarrow> 's \<Rightarrow> error option \<times> 's" where
  "feedTokens tdToken [] s = (None, s)"
| "feedTokens tdToken (t # ts) s =
     (case tdToken t s of
        (Some err, s1) \<Rightarrow> (Some err, s1)
      | (None, s1) \<Rightarrow> feedTokens tdToken ts s1)"

fun nesting :: "nat \<Rightarrow> Token list \<Rightarrow> nat option" where
  "nesting k [] = Some k"
| "nesting k (xml_StartElement name attrs # ts) = nesting (Suc k) ts"
| "nesting k (xml_EndElement name # ts) = (case k of 0 \<Rightarrow> None | Suc j \<Rightarrow> nesting j ts)"
| "nesting k (t # ts) = nesting k ts"

definition balanced :: "Token list \<Rightarrow> bool" where
  "balanced ts = (nesting 0 ts = Some 0)"

subsection \<open>A sample schema and document\<close>

text \<open>
  A decoder on an empty document after \<^verbatim>\<open>Initialize("name.resolver", "rfc6020")\<close>, over the
  part of the test module \<^verbatim>\<open>module1\<close> (namespace \<^verbatim>\<open>urn:mod1\<close>) with the container
  \<^verbatim>\<open>system\<close> and its leaves \<^verbatim>\<open>host-name\<close> and \<^verbatim>\<open>domain-name-servers\<close>; the tokens of
  \<^verbatim>\<open><system xmlns="urn:mod1"><hostname>abc123</hostname></system>\<close> and of the same
  document with \<^verbatim>\<open>host-name\<close>.
\<close>

definition module1 :: Entry where
  "module1 =
     Entry DirectoryEntry ''module1'' ''urn:mod1''
       [(''system'',
         Entry DirectoryEntry ''system'' ''urn:mod1''
           [(''host-name'', Entry LeafEntry ''host-name'' ''urn:mod1'' []),
            (''domain-name-servers'', Entry LeafEntry ''domain-name-servers'' ''urn:mod1'' [])])]"

definition exModules :: Collection where
  "exModules = \<lparr>ms = [(''module1'', \<lparr>ModNamespace = Some ''urn:mod1'', ToEntry = module1\<rparr>)],
                 processed = True\<rparr>"

definition exDecoder :: Decoder where
  "exDecoder = \<lparr>DNode = Some 0, Modules = exModules, schema = None, dstack = [], skip = False,
                 errors = [], childname = Some rfc6020Lookup\<rparr>"

definition xmlHostname :: "Token list" where
  "xmlHostname =
     [xml_StartElement \<lparr>Space = ''urn:mod1'', Local = ''system''\<rparr>
        [\<lparr>AttrName = \<lparr>Space = [], Local = ''xmlns''\<rparr>, Value = ''urn:mod1''\<rparr>],
      xml_StartElement \<lparr>Space = ''urn:mod1'', Local = ''hostname''\<rparr> [],
      xml_CharData ''abc123'',
      xml_EndElement \<lparr>Space = ''urn:mod1'', Local = ''hostname''\<rparr>,
      xml_EndElement \<lparr>Space = ''urn:mod1'', Local = ''system''\<rparr>]"

definition xmlHostName :: "Token list" where
  "xmlHostName =
     [xml_StartElement \<lparr>Space = ''urn:mod1'', Local = ''system''\<rparr>
        [\<lparr>AttrName = \<lparr>Space = [], Local = ''xmlns''\<rparr>, Value = ''urn:mod1''\<rparr>],
      xml_StartElement \<lparr>Space = ''urn:mod1'', Local = ''host-name''\<rparr> [],
      xml_CharData ''abc123'',
      xml_EndElement \<lparr>Space = ''urn:mod1'', Local = ''host-name''\<rparr>,
      xml_EndElement \<lparr>Space = ''urn:mod1'', Local = ''system''\<rparr>]"

definition decodeYANG :: "Token list \<Rightarrow> error option \<times> Decoder \<times> store" where
  "decodeYANG ts =
     UnmarshalXML (\<lambda>(un, s). Decoder_Begin un s) Decoder_Token (\<lambda>err (un, s). Decoder_End err un s)
       ts (exDecoder, docStore)"

text \<open>The decoder after the start tag of \<^verbatim>\<open>system\<close>, after the start tag of
  \<^verbatim>\<open>hostname\<close>, and after the text inside it.\<close>

definition afterSystem :: "Decoder \<times> store" where
  "afterSystem = snd (Decoder_Token (xmlHostname ! 0) (exDecoder, docStore))"

definition hostnameName :: Name where
  "hostnameName = \<lparr>Space = ''urn:mod1'', Local = ''hostname''\<rparr>"

definition afterHostname :: "Decoder \<times> store" where
  "afterHostname = snd (Decoder_StartElement hostnameName [] (fst afterSystem) (snd afterSystem))"

definition afterText :: "Decoder \<times> store" where
  "afterText = snd (feedTokens Decoder_Token [xml_CharData ''abc123''] afterHostname)"

text \<open>The bridge inside the array of \<^verbatim>\<open>{"foo": [[1]]}\<close>.\<close>

definition exArrayDecoder :: "(Builder \<times> store) JSONDecoder" where
  "exArrayDecoder =
     \<lparr>tokens = [Delim CHR ''['', JNumber ''1'', Delim CHR '']'', Delim CHR '']'', Delim CHR ''}''],
      td = (docBuilder, docStore), jerror = None,
      stack = [\<lparr>fn = Some FnObject, key = ''foo''\<rparr>]\<rparr>"

section \<open>Properties\<close>

subsection \<open>Outcomes of the linking primitives\<close>

lemma fst_appendNode:
  "fst (appendNode c n h) = None \<or> fst (appendNode c n h) = Some NilDereference"
  unfolding appendNode_def by (simp add: Let_def split: option.splits)

lemma fst_prependNode: "fst (prependNode c n h) = None"
  unfolding prependNode_def by (simp add: Let_def split: option.splits)

lemma fst_insertNodeAfter:
  "fst (insertNodeAfter c a h) = None \<or> fst (insertNodeAfter c a h) = Some NilDereference"
  unfolding insertNodeAfter_def by (simp add: Let_def split: option.splits prod.splits)

lemma fst_insertNodeBefore:
  "fst (insertNodeBefore c b h) = None \<or> fst (insertNodeBefore c b h) = Some NilDereference"
  unfolding insertNodeBefore_def by (simp add: Let_def split: option.splits prod.splits)

lemma allowInsertChildErr_None:
  "(allowInsertChildErr p c = None) = allowInsertChild p c"
  by (simp add: allowInsertChildErr_def)

lemma allowInsertChildErr_hierarchy:
  "\<not> allowInsertChild p c \<Longrightarrow> isHierarchyError (allowInsertChildErr p c)"
  by (simp add: allowInsertChildErr_def isHierarchyError_def)

subsection \<open>Structural validity of child insertion\<close>

lemma allowInsertChild_iff:
  "allowInsertChild p c \<longleftrightarrow>
     p \<noteq> NodeTypeNull \<and> c \<noteq> NodeTypeNull \<and>
     (p = NodeTypeDocument \<or> p = NodeTypeElement) \<and>
     c \<noteq> NodeTypeDocument \<and>
     ((c = NodeTypeDocumentType \<or> c = NodeTypeDeclaration) \<longrightarrow> p = NodeTypeDocument)"
  unfolding allowInsertChild_def by auto

lemma AppendChild_hierarchy_iff:
  "isHierarchyError (fst (AppendChild n c h)) \<longleftrightarrow>
     \<not> allowInsertChild (NodeTypeOf h n) (NodeTypeOf h c)"
  using fst_appendNode[of c n h]
  by (auto simp: AppendChild_def allowInsertChildErr_def isHierarchyError_def)

lemma PrependChild_hierarchy_iff:
  "isHierarchyError (fst (PrependChild n c h)) \<longleftrightarrow>
     \<not> allowInsertChild (NodeTypeOf h n) (NodeTypeOf h c)"
  using fst_prependNode[of c n h]
  by (auto simp: PrependChild_def allowInsertChildErr_def isHierarchyError_def)

lemma InsertChildAfter_hierarchy_iff:
  "isHierarchyError (fst (InsertChildAfter n c r h)) \<longleftrightarrow>
     \<not> allowInsertChild (NodeTypeOf h n) (NodeTypeOf h c) \<or>
     (\<exists>a. r = Some a \<and> Parent h a \<noteq> Some n)"
  using fst_appendNode[of c n h] fst_insertNodeAfter[of c "the r" h]
  by (auto simp: InsertChildAfter_def allowInsertChildErr_def isHierarchyError_def
           split: option.splits)

lemma InsertChildBefore_hierarchy_iff:
  "isHierarchyError (fst (InsertChildBefore n c r h)) \<longleftrightarrow>
     \<not> allowInsertChild (NodeTypeOf h n) (NodeTypeOf h c) \<or>
     (\<exists>b. r = Some b \<and> Parent h b \<noteq> Some n)"
  using fst_prependNode[of c n h] fst_insertNodeBefore[of c "the r" h]
  by (auto simp: InsertChildBefore_def allowInsertChildErr_def isHierarchyError_def
           split: option.splits)

text \<open>
  Claim C2.  For every pair of parent and child kinds the structural validity function
  accepts exactly the pairs the specification lists, and each of the four child mutation
  operations is gated by it: append-child and prepend-child fail with a hierarchy error
  exactly for the violating pairs; insert-child-after and insert-child-before fail with a
  hierarchy error for every violating pair and, for a valid pair, only when a reference
  node is supplied that is not a child of the mutated node.
\<close>

theorem child_insertion_validity:
  "allowInsertChild p c = structurallyValid p c \<and>
   isHierarchyError (fst (AppendChild n ch h)) =
     (\<not> structurallyValid (NodeTypeOf h n) (NodeTypeOf h ch)) \<and>
   isHierarchyError (fst (PrependChild n ch h)) =
     (\<not> structurallyValid (NodeTypeOf h n) (NodeTypeOf h ch)) \<and>
   isHierarchyError (fst (InsertChildAfter n ch r h)) =
     (\<not> structurallyValid (NodeTypeOf h n) (NodeTypeOf h ch) \<or>
      (\<exists>a. r = Some a \<and> Parent h a \<noteq> Some n)) \<and>
   isHierarchyError (fst (InsertChildBefore n ch r h)) =
     (\<not> structurallyValid (NodeTypeOf h n) (NodeTypeOf h ch) \<or>
      (\<exists>b. r = Some b \<and> Parent h b \<noteq> Some n))"
proof -
  have v: "\<And>p c. allowInsertChild p c = structurallyValid p c"
    by (simp add: allowInsertChild_iff structurallyValid_def)
  show ?thesis
    unfolding AppendChild_hierarchy_iff PrependChild_hierarchy_iff
      InsertChildAfter_hierarchy_iff InsertChildBefore_hierarchy_iff v
    by simp
qed

theorem child_insertion_validity_witness:
  "allowInsertChild NodeTypeDocument NodeTypeDeclaration \<and>
   \<not> isHierarchyError (fst (AppendChild 0 1 exHeap)) \<and>
   isHierarchyError (fst (PrependChild 3 1 exHeap)) \<and>
   \<not> isHierarchyError (fst (InsertChildAfter 0 1 None exHeap)) \<and>
   isHierarchyError (fst (InsertChildBefore 0 1 (Some 2) exHeap))"
  using child_insertion_validity[of NodeTypeDocument NodeTypeDeclaration 0 1 exHeap None]
    child_insertion_validity[of NodeTypeDocument NodeTypeDeclaration 3 1 exHeap "Some 2"]
    child_insertion_validity[of NodeTypeDocument NodeTypeDeclaration 0 1 exHeap "Some 2"]
  by (simp add: structurallyValid_def exHeap_def NodeTypeOf_def newNode_def Parent_def)

subsection \<open>A rejected insertion changes nothing\<close>

text \<open>
  Claim C5.  When the kinds of parent and child are structurally invalid, each of the four
  operations returns a hierarchy error and the store it returns is the store it was given:
  no link of the parent, of the child or of any other node has changed.
\<close>

theorem insertion_failure_noop:
  assumes "\<not> allowInsertChild (NodeTypeOf h n) (NodeTypeOf h child)"
  shows "isHierarchyError (fst (AppendChild n child h)) \<and> snd (AppendChild n child h) = h \<and>
         isHierarchyError (fst (PrependChild n child h)) \<and> snd (PrependChild n child h) = h \<and>
         isHierarchyError (fst (InsertChildAfter n child r h)) \<and>
           snd (InsertChildAfter n child r h) = h \<and>
         isHierarchyError (fst (InsertChildBefore n child r h)) \<and>
           snd (InsertChildBefore n child r h) = h"
  using assms
  by (simp add: AppendChild_def PrependChild_def InsertChildAfter_def InsertChildBefore_def
      allowInsertChildErr_def isHierarchyError_def)

theorem insertion_failure_noop_witness:
  "\<not> allowInsertChild (NodeTypeOf exHeap 3) (NodeTypeOf exHeap 1) \<and>
   AppendChild 3 1 exHeap =
     (Some (Wrap ErrHierarchyRequest
         ''parent node type TEXT_NODE may not have a ELEMENT_NODE child''), exHeap)"
proof -
  have h: "\<not> allowInsertChild (NodeTypeOf exHeap 3) (NodeTypeOf exHeap 1)"
    by (simp add: allowInsertChild_def exHeap_def NodeTypeOf_def newNode_def)
  from insertion_failure_noop[OF h, of None]
  have "snd (AppendChild 3 1 exHeap) = exHeap" by simp
  moreover have "fst (AppendChild 3 1 exHeap) = Some (Wrap ErrHierarchyRequest
         ''parent node type TEXT_NODE may not have a ELEMENT_NODE child'')"
    using h
    by (simp add: AppendChild_def allowInsertChildErr_def exHeap_def NodeTypeOf_def newNode_def)
  ultimately show ?thesis using h by (simp add: prod_eq_iff)
qed

lemma set_parent_sel:
  "parent (set_parent a v h x) = (if x = a then v else parent (h x))"
  "firstChild (set_parent a v h x) = firstChild (h x)"
  "nextSib (set_parent a v h x) = nextSib (h x)"
  "prevSib (set_parent a v h x) = prevSib (h x)"
  "firstAttr (set_parent a v h x) = firstAttr (h x)"
  "val (set_parent a v h x) = val (h x)"
  by (simp_all add: set_parent_def)

lemma set_firstChild_sel:
  "parent (set_firstChild a v h x) = parent (h x)"
  "firstChild (set_firstChild a v h x) = (if x = a then v else firstChild (h x))"
  "nextSib (set_firstChild a v h x) = nextSib (h x)"
  "prevSib (set_firstChild a v h x) = prevSib (h x)"
  "firstAttr (set_firstChild a v h x) = firstAttr (h x)"
  "val (set_firstChild a v h x) = val (h x)"
  by (simp_all add: set_firstChild_def)

lemma set_nextSib_sel:
  "parent (set_nextSib a v h x) = parent (h x)"
  "firstChild (set_nextSib a v h x) = firstChild (h x)"
  "nextSib (set_nextSib a v h x) = (if x = a then v else nextSib (h x))"
  "prevSib (set_nextSib a v h x) = prevSib (h x)"
  "firstAttr (set_nextSib a v h x) = firstAttr (h x)"
  "val (set_nextSib a v h x) = val (h x)"
  by (simp_all add: set_nextSib_def)

lemma set_prevSib_sel:
  "parent (set_prevSib a v h x) = parent (h x)"
  "firstChild (set_prevSib a v h x) = firstChild (h x)"
  "nextSib (set_prevSib a v h x) = nextSib (h x)"
  "prevSib (set_prevSib a v h x) = (if x = a then v else prevSib (h x))"
  "firstAttr (set_prevSib a v h x) = firstAttr (h x)"
  "val (set_prevSib a v h x) = val (h x)"
  by (simp_all add: set_prevSib_def)

lemma set_firstAttr_sel:
  "parent (set_firstAttr a v h x) = parent (h x)"
  "firstChild (set_firstAttr a v h x) = firstChild (h x)"
  "nextSib (set_firstAttr a v h x) = nextSib (h x)"
  "prevSib (set_firstAttr a v h x) = prevSib (h x)"
  "firstAttr (set_firstAttr a v h x) = (if x = a then v else firstAttr (h x))"
  "val (set_firstAttr a v h x) = val (h x)"
  by (simp_all add: set_firstAttr_def)

lemmas sel_set = set_parent_sel set_firstChild_sel set_nextSib_sel set_prevSib_sel
  set_firstAttr_sel

subsection \<open>Appending to a well-formed sibling list\<close>

lemma childListD:
  assumes "childList h p xs" "i < length xs"
  shows "parent (h (xs ! i)) = Some p"
    and "nextSib (h (xs ! i)) = (if Suc i < length xs then Some (xs ! Suc i) else None)"
    and "prevSib (h (xs ! i)) = Some (if i = 0 then last xs else xs ! (i - 1))"
  using assms unfolding childList_def by blast+

lemma appendNode_empty:
  assumes "childList h p []" "nextSib (h c) = None"
  shows "fst (appendNode c p h) = None \<and> childList (snd (appendNode c p h)) p [c]"
  using assms
  by (auto simp: childList_def appendNode_def sel_set Let_def)

lemma appendNode_nonempty:
  assumes cl: "childList h p xs" and ne: "xs \<noteq> []" and fresh: "c \<notin> set xs"
    and nx: "nextSib (h c) = None"
  shows "fst (appendNode c p h) = None \<and> childList (snd (appendNode c p h)) p (xs @ [c])"
proof -
  let ?hd = "hd xs" and ?tl = "last xs"
  from cl ne have fc: "firstChild (h p) = Some ?hd" by (simp add: childList_def)
  from ne have hd0: "?hd = xs ! 0" by (simp add: hd_conv_nth)
  from childListD(3)[OF cl, of 0] ne have pv: "prevSib (h ?hd) = Some ?tl" by (simp add: hd0)
  define h' where "h' = set_prevSib ?hd (Some c) (set_prevSib c (Some ?tl)
        (set_nextSib ?tl (Some c) (set_parent c (Some p) h)))"
  have res: "appendNode c p h = (None, h')"
    using fc pv fresh ne
    by (auto simp: appendNode_def Let_def h'_def sel_set)
  have hdin: "?hd \<in> set xs" and tlin: "?tl \<in> set xs" using ne by auto
  have cne: "c \<noteq> ?hd" "c \<noteq> ?tl" using fresh hdin tlin by auto
  have dist: "distinct xs" using cl by (simp add: childList_def)
  have fc': "firstChild (h' p) = Some ?hd" using fc by (simp add: h'_def sel_set)
  have c_fields: "parent (h' c) = Some p" "prevSib (h' c) = Some ?tl" "nextSib (h' c) = None"
    using cne nx by (auto simp: h'_def sel_set)
  have old: "parent (h' (xs ! i)) = Some p \<and>
        nextSib (h' (xs ! i)) = (if Suc i < length xs then Some (xs ! Suc i) else Some c) \<and>
        prevSib (h' (xs ! i)) = Some (if i = 0 then c else xs ! (i - 1))"
    if i: "i < length xs" for i
  proof -
    have in_xs: "xs ! i \<in> set xs" using i by simp
    then have nc: "xs ! i \<noteq> c" using fresh by auto
    have tl_iff: "xs ! i = ?tl \<longleftrightarrow> Suc i = length xs"
      using dist i ne by (auto simp: last_conv_nth nth_eq_iff_index_eq)
    have hd_iff: "xs ! i = ?hd \<longleftrightarrow> i = 0"
      using dist i ne by (auto simp: hd0 nth_eq_iff_index_eq)
    show ?thesis
      using childListD[OF cl i] nc tl_iff hd_iff i
      by (auto simp: h'_def sel_set)
  qed
  have "childList h' p (xs @ [c])"
    unfolding childList_def
  proof (intro conjI allI impI)
    show "distinct (xs @ [c])" using dist fresh by simp
    show "firstChild (h' p) = (if xs @ [c] = [] then None else Some (hd (xs @ [c])))"
      using fc' ne by simp
  next
    fix i assume "i < length (xs @ [c])"
    then consider "i < length xs" | "i = length xs" by fastforce
    then show "parent (h' ((xs @ [c]) ! i)) = Some p"
      using old c_fields by cases (auto simp: nth_append)
  next
    fix i assume "i < length (xs @ [c])"
    then consider "i < length xs" | "i = length xs" by fastforce
    then show "nextSib (h' ((xs @ [c]) ! i)) =
         (if Suc i < length (xs @ [c]) then Some ((xs @ [c]) ! Suc i) else None)"
      using old c_fields by cases (auto simp: nth_append)
  next
    fix i assume "i < length (xs @ [c])"
    then consider "i < length xs" | "i = length xs" by fastforce
    then show "prevSib (h' ((xs @ [c]) ! i)) =
         Some (if i = 0 then last (xs @ [c]) else (xs @ [c]) ! (i - 1))"
      using old c_fields ne by cases (auto simp: nth_append last_conv_nth)
  qed
  with res show ?thesis by simp
qed

lemma appendNode_childList:
  assumes "childList h p xs" "c \<notin> set xs" "nextSib (h c) = None"
  shows "fst (appendNode c p h) = None \<and> childList (snd (appendNode c p h)) p (xs @ [c])"
  using appendNode_empty[of h p c] appendNode_nonempty[of h p xs c] assms
  by (cases "xs = []") auto

lemma AppendChild_childList:
  assumes "allowInsertChild (NodeTypeOf h p) (NodeTypeOf h c)"
    and "childList h p xs" "c \<notin> set xs" "nextSib (h c) = None"
  shows "fst (AppendChild p c h) = None \<and> childList (snd (AppendChild p c h)) p (xs @ [c])"
  using assms appendNode_childList[of h p xs c]
  by (simp add: AppendChild_def allowInsertChildErr_def)

subsection \<open>The sample documents\<close>

lemma exDocA_eq:
  "exDocA = exHeap(0 := (exHeap 0)\<lparr>firstChild := Some 1\<rparr>,
                   1 := (exHeap 1)\<lparr>parent := Some 0, prevSib := Some 1\<rparr>)"
  unfolding exDocA_def
  by (simp add: AppendChild_def allowInsertChildErr_def allowInsertChild_def NodeTypeOf_def
      exHeap_def newNode_def appendNode_def set_parent_def set_firstChild_def set_prevSib_def
      Let_def fun_eq_iff)


lemma childList_exDocA: "childList exDocA 0 [1]"
  unfolding exDocA_eq by (simp add: childList_def exHeap_def newNode_def)


subsection \<open>PreviousSibling\<close>




subsection \<open>insertNodeBefore and the sibling list\<close>

lemma InsertChildBefore_exDocA:
  "InsertChildBefore 0 2 (Some 1) exDocA =
     (None, exDocA(1 := (exDocA 1)\<lparr>nextSib := Some 2, prevSib := Some 2\<rparr>,
                   2 := (exDocA 2)\<lparr>parent := Some 1, nextSib := Some 1, prevSib := Some 1\<rparr>))"
  unfolding exDocA_eq
  by (simp add: InsertChildBefore_def allowInsertChildErr_def allowInsertChild_def
      NodeTypeOf_def Parent_def exHeap_def newNode_def insertNodeBefore_def set_parent_def
      set_nextSib_def set_prevSib_def Let_def fun_eq_iff)

text \<open>
  Claim C3, evaluated where the code departs from it.  The document holds the single child
  \<open>a\<close> (address 1), a well-formed list; \<^verbatim>\<open>doc.InsertChildBefore(b, a)\<close> with the fresh
  element \<open>b\<close> (address 2) reports success, and afterwards \<open>b\<close>'s parent is \<open>a\<close> instead of
  the document, the document's first child is still \<open>a\<close>, and \<open>a\<close> and \<open>b\<close> point at each
  other through \<^verbatim>\<open>nextSib\<close>, so no node of the list has a nil \<^verbatim>\<open>nextSib\<close>.
\<close>

theorem InsertChildBefore_breaks_sibling_list:
  "fst (InsertChildBefore 0 2 (Some 1) exDocA) = None \<and>
   parent (snd (InsertChildBefore 0 2 (Some 1) exDocA) 2) = Some 1 \<and>
   firstChild (snd (InsertChildBefore 0 2 (Some 1) exDocA) 0) = Some 1 \<and>
   nextSib (snd (InsertChildBefore 0 2 (Some 1) exDocA) 1) = Some 2 \<and>
   nextSib (snd (InsertChildBefore 0 2 (Some 1) exDocA) 2) = Some 1 \<and>
   prevSib (snd (InsertChildBefore 0 2 (Some 1) exDocA) 1) = Some 2 \<and>
   prevSib (snd (InsertChildBefore 0 2 (Some 1) exDocA) 2) = Some 1"
  unfolding InsertChildBefore_exDocA
  by (simp add: exDocA_eq exHeap_def newNode_def)

lemma InsertChildBefore_exDocA_not_childList:
  "\<not> childList (snd (InsertChildBefore 0 2 (Some 1) exDocA)) 0 xs"
proof
  assume cl: "childList (snd (InsertChildBefore 0 2 (Some 1) exDocA)) 0 xs"
  let ?h = "snd (InsertChildBefore 0 2 (Some 1) exDocA)"
  have fc: "firstChild (?h 0) = Some 1" and nx: "nextSib (?h 1) = Some 2"
    and pa: "parent (?h 2) = Some 1"
    unfolding InsertChildBefore_exDocA by (simp_all add: exDocA_eq exHeap_def newNode_def)
  from cl fc have ne: "xs \<noteq> []" and h0: "xs ! 0 = 1"
    by (auto simp: childList_def hd_conv_nth split: if_splits)
  from childListD(2)[OF cl, of 0] ne nx h0 have l1: "1 < length xs" and x1: "xs ! 1 = 2"
    by (auto split: if_splits)
  from childListD(1)[OF cl l1] x1 pa show False by simp
qed

subsection \<open>Move validity and the ownership graph\<close>




lemma ownerWalk_never_finds:
  assumes "ownerWalk h it = Some d"
  shows "d = None"
proof (rule ownerWalk.raw_induct[where P="\<lambda>h it d. d = None", OF _ assms])
  fix ow :: "heap \<Rightarrow> nat option \<Rightarrow> nat option option" and h it d
  assume IH: "\<And>h it d. ow h it = Some d \<Longrightarrow> d = None"
    and eq: "(case it of None \<Rightarrow> Some None
              | Some i \<Rightarrow> if implementsDocument (val (h i)) then Some (Some i)
                          else ow h (parent (h i))) = Some d"
  from eq IH show "d = None"
    by (auto simp: implementsDocument_def split: option.splits)
qed

lemma OwnerDocument_never_finds: "OwnerDocument h n = Some d \<Longrightarrow> d = None"
  unfolding OwnerDocument_def by (rule ownerWalk_never_finds)














section \<open>Character data bounds\<close>

lemma InsertData_error_iff:
  "fst (InsertData offset arg v) = Some ErrIndexSize \<longleftrightarrow>
     \<not> (0 \<le> sint offset \<and> sint offset < int (length v))"
  by (simp add: InsertData_def)

lemma CharData_errors_keep_data:
  "fst (InsertData offset arg v) \<noteq> None \<Longrightarrow> snd (InsertData offset arg v) = v"
  "fst (DeleteData offset count v) \<noteq> None \<Longrightarrow> snd (DeleteData offset count v) = v"
  "fst (ReplaceData offset count arg v) \<noteq> None \<Longrightarrow> snd (ReplaceData offset count arg v) = v"
  by (auto simp: InsertData_def DeleteData_def ReplaceData_def Let_def split: if_splits)

lemma CharData_byte_bounds:
  "sint (offset + count) > int (length v) \<Longrightarrow>
     DeleteData offset count v = (Some ErrIndexSize, v)"
  "sint (offset + count) > int (length v) \<or> int (length arg) < sint count \<Longrightarrow>
     ReplaceData offset count arg v = (Some ErrIndexSize, v)"
  by (auto simp: DeleteData_def ReplaceData_def)

lemma CharData_examples:
  "DeleteData 5 3 ''abc'' = (Some ErrIndexSize, ''abc'')"
  "ReplaceData 0 3 ''ab'' ''abc'' = (Some ErrIndexSize, ''abc'')"
  "ReplaceData 0 6 ''foobar'' ''replaced'' = (None, ''foobared'')"
  "DeleteData 1 2 ''foobared'' = (None, ''fbared'')"
  "InsertData 1 ''u'' ''fbared'' = (None, ''fubared'')"
  by (simp_all add: DeleteData_def ReplaceData_def InsertData_def Let_def)

lemma DeleteData_wraps:
  "DeleteData 9223372036854775807 1 ''abc'' = (Some SliceOutOfRange, ''abc'')"
  by (simp add: DeleteData_def)

text \<open>
  Claim C6, evaluated where the code departs from it.  The text node holds the single rune
  U+00E9, two bytes.  Measured in runes, \<^verbatim>\<open>DeleteData(0, 2)\<close> and \<^verbatim>\<open>ReplaceData(0, 2, "xy")\<close>
  reach past the end of the data (0 + 2 exceeds 1) and must fail with the index-size error,
  leaving the data unchanged; the code compares with the length in bytes, deletes both
  bytes in the first call and overwrites them in the second, and returns nil.
\<close>

theorem DeleteData_measures_bytes:
  "RuneCount eAcute = 1 \<and> length eAcute = 2 \<and>
   DeleteData 0 2 eAcute = (None, []) \<and>
   ReplaceData 0 2 ''xy'' eAcute = (None, ''xy'')"
  by (simp add: RuneCount_def eAcute_def DeleteData_def ReplaceData_def Let_def)

section \<open>The Builder\<close>

lemma childList_frame:
  assumes "childList h p xs" "t \<notin> set xs" "t \<noteq> p"
  shows "childList (h(t := r)) p xs"
proof -
  have "xs ! i \<noteq> t" if "i < length xs" for i using assms(2) that by (metis nth_mem)
  then show ?thesis using assms(1,3) by (simp add: childList_def)
qed

lemma val_appendNode: "val (snd (appendNode c p h) a) = val (h a)"
  by (simp add: appendNode_def Let_def sel_set split: option.splits)

lemma Builder_appendText_appended:
  assumes al: "allowInsertChild (NodeTypeOf (cells s) n) NodeTypeText"
    and cl: "childList (cells s) n xs"
    and lt: "n < nextAddr s" "\<forall>x\<in>set xs. x < nextAddr s"
  shows "TextChildAppended n xs d un s (Builder_appendText d n un s)"
proof -
  let ?t = "nextAddr s"
  let ?h = "(cells s)(?t := newNode (ValText d))"
  have tn: "?t \<noteq> n" and tx: "?t \<notin> set xs" using lt by auto
  have cl': "childList ?h n xs" using childList_frame[OF cl tx tn] .
  have al': "allowInsertChild (NodeTypeOf ?h n) (NodeTypeOf ?h ?t)"
    using al tn by (simp add: NodeTypeOf_def newNode_def)
  have nx: "nextSib (?h ?t) = None" by (simp add: newNode_def)
  obtain e h' where r: "AppendChild n ?t ?h = (e, h')" by (cases "AppendChild n ?t ?h")
  from AppendChild_childList[of ?h n ?t xs, OF al' cl' tx nx] r
  have a: "e = None" and b: "childList h' n (xs @ [?t])" by auto
  have v: "val (h' a) = val (?h a)" for a
    using al' r val_appendNode[of ?t n ?h a]
    by (simp add: AppendChild_def allowInsertChildErr_def)
  have v1: "val (h' ?t) = ValText d" using v[of ?t] by (simp add: newNode_def)
  have v2: "\<forall>a. a \<noteq> ?t \<longrightarrow> val (h' a) = val (cells s a)" using v by simp
  show ?thesis
    unfolding TextChildAppended_def Builder_appendText_def newText_def alloc_def
    using a b v1 v2 r by simp
qed

lemma Builder_CharData_rejected:
  assumes "Node un = Some n" "\<not> allowInsertChild (NodeTypeOf (cells s) n) NodeTypeText"
  shows "isHierarchyError (fst (Builder_CharData T cd un s)) \<and>
         snd (Builder_CharData T cd un s) = (un, s)"
  using assms
  by (simp add: Builder_CharData_def allowInsertChildErr_def isHierarchyError_def)

text \<open>
  Claim C7.  The cursor of the Builder is a node that may own a Text child, its children
  form a well-formed list, and the allocator is past the cursor and its children.  Then a
  CharData token with empty data is dropped unless keep-whitespace-only-text is set; with
  trim-text set the data is stripped and dropped if the result is empty, unless
  keep-whitespace-only-text is set, and is otherwise appended stripped; without trim-text
  it is appended verbatim.  Dropped means that Builder and store are unchanged; appended
  means \<open>TextChildAppended\<close>: a new Text node holding the data is the last child of the
  cursor.
\<close>

theorem Builder_CharData_configuration:
  assumes "Node un = Some n"
    and "allowInsertChild (NodeTypeOf (cells s) n) NodeTypeText"
    and "childList (cells s) n xs"
    and "n < nextAddr s" and "\<forall>x\<in>set xs. x < nextAddr s"
  shows "(cd = [] \<and> \<not> Has (opts un) parseWSPCData \<longrightarrow>
            Builder_CharData T cd un s = (None, un, s)) \<and>
         (Has (opts un) parseTrimPCData \<and> \<not> Has (opts un) parseWSPCData \<and> T cd = [] \<longrightarrow>
            Builder_CharData T cd un s = (None, un, s)) \<and>
         (Has (opts un) parseTrimPCData \<and> (Has (opts un) parseWSPCData \<or> T cd \<noteq> []) \<and>
          (cd \<noteq> [] \<or> Has (opts un) parseWSPCData) \<longrightarrow>
            TextChildAppended n xs (T cd) un s (Builder_CharData T cd un s)) \<and>
         (\<not> Has (opts un) parseTrimPCData \<and> (cd \<noteq> [] \<or> Has (opts un) parseWSPCData) \<longrightarrow>
            TextChildAppended n xs cd un s (Builder_CharData T cd un s))"
  using assms Builder_appendText_appended[OF assms(2,3,4,5), of cd un]
    Builder_appendText_appended[OF assms(2,3,4,5), of "T cd" un]
  by (auto simp: Builder_CharData_def allowInsertChildErr_def Let_def)


lemma trimSpaceASCII_examples:
  "trimSpaceASCII ''  hi  '' = ''hi''" "trimSpaceASCII ''   '' = []"
  by (simp_all add: trimSpaceASCII_def)

theorem Builder_CharData_configuration_witness:
  "Node (exBuilder parseTrimPCData) = Some 1 \<and>
   allowInsertChild (NodeTypeOf (cells exStore) 1) NodeTypeText \<and>
   childList (cells exStore) 1 [] \<and>
   Has (opts (exBuilder parseTrimPCData)) parseTrimPCData \<and>
   \<not> Has (opts (exBuilder parseTrimPCData)) parseWSPCData \<and>
   Builder_CharData trimSpaceASCII ''   '' (exBuilder parseTrimPCData) exStore =
     (None, exBuilder parseTrimPCData, exStore) \<and>
   TextChildAppended 1 [] ''hi'' (exBuilder parseTrimPCData) exStore
     (Builder_CharData trimSpaceASCII ''  hi  '' (exBuilder parseTrimPCData) exStore) \<and>
   TextChildAppended 1 [] ''  hi  '' (exBuilder 0) exStore
     (Builder_CharData trimSpaceASCII ''  hi  '' (exBuilder 0) exStore)"
proof -
  have 1: "Node (exBuilder f) = Some 1" for f by (simp add: exBuilder_def)
  have 2: "allowInsertChild (NodeTypeOf (cells exStore) 1) NodeTypeText"
    by (simp add: exStore_def exDocA_eq exHeap_def newNode_def NodeTypeOf_def allowInsertChild_def)
  have 3: "childList (cells exStore) 1 []"
    by (simp add: exStore_def exDocA_eq exHeap_def newNode_def childList_def)
  have 4: "1 < nextAddr exStore" by (simp add: exStore_def)
  have 5: "\<forall>x\<in>set []. x < nextAddr exStore" by simp
  have f: "Has (opts (exBuilder parseTrimPCData)) parseTrimPCData"
    "\<not> Has (opts (exBuilder parseTrimPCData)) parseWSPCData"
    "\<not> Has (opts (exBuilder 0)) parseTrimPCData"
    by (simp_all add: exBuilder_def Has_def parseTrimPCData_def parseWSPCData_def)
  show ?thesis
    using Builder_CharData_configuration[OF 1[of parseTrimPCData] 2 3 4 5,
        where cd="''   ''" and T=trimSpaceASCII]
      Builder_CharData_configuration[OF 1[of parseTrimPCData] 2 3 4 5,
        where cd="''  hi  ''" and T=trimSpaceASCII]
      Builder_CharData_configuration[OF 1[of 0] 2 3 4 5,
        where cd="''  hi  ''" and T=trimSpaceASCII]
      1 2 3 f
    by (simp add: trimSpaceASCII_examples)
qed

section \<open>The JSON-to-token bridge and the schema-guided decoder\<close>

lemma jsTagToName_split:
  assumes "CHR '':'' \<notin> set ns" "ns \<noteq> []"
  shows "jsTagToName (ns @ CHR '':'' # l) = \<lparr>Space = ns, Local = l\<rparr>"
proof -
  have "takeWhile (\<lambda>c. c \<noteq> CHR '':'') (ns @ CHR '':'' # l) = ns"
    using assms(1) by (induction ns) auto
  then show ?thesis using assms(2) by (simp add: jsTagToName_def Let_def)
qed

lemma jsTagToName_plain:
  assumes "CHR '':'' \<notin> set k"
  shows "jsTagToName k = \<lparr>Space = [], Local = k\<rparr>"
proof -
  have tw: "takeWhile (\<lambda>c. c \<noteq> CHR '':'') k = k" using assms by (induction k) auto
  show ?thesis unfolding jsTagToName_def Let_def tw by simp
qed

lemma jsTagToName_leading_colon:
  "jsTagToName (CHR '':'' # l) = \<lparr>Space = [], Local = CHR '':'' # l\<rparr>"
  by (simp add: jsTagToName_def Let_def)

lemma nested_array_rejected:
  assumes "tokens d = Delim CHR ''['' # ts"
  shows "fst (jsDecodeArray T d) = None \<and>
         jerror (snd (jsDecodeArray T d)) = Some (Errorf ''decoding of nested arrays unsupported'')"
  using assms
  by (subst (1 2) jsDecodeArray.simps)
     (simp add: More_def bail_def pop_def push_def Let_def split: list.splits prod.splits)

text \<open>
  Claim C8, as the code has it.  \<^verbatim>\<open>{"foo": []}\<close> decodes without error and hands no token
  to the encoder.  \<^verbatim>\<open>{"foo": {}}\<close> decodes without error and hands the encoder the start and
  the end tag of \<^verbatim>\<open>foo\<close>.  \<^verbatim>\<open>{"a:b": 1, "a:": 2}\<close> decodes without error as well: the
  document gets two element children, \<^verbatim>\<open>b\<close> in namespace \<^verbatim>\<open>a\<close> and an element with namespace
  \<^verbatim>\<open>a\<close> and the empty local name.  On re-encoding, the tokens of \<^verbatim>\<open><b xmlns="a">1</b>\<close> are
  followed by a start tag with the empty local name; an encoder that refuses such a tag
  reports its error after the first three tokens.  A key is split at its first colon when
  a non-empty prefix precedes it, a key without colon is a local name, and inside an array
  an opening bracket ends the run with the error
  \<^verbatim>\<open>decoding of nested arrays unsupported\<close>.
\<close>

theorem JSON_shape_mapping:
  "map_option fst (decodeJSON jsonEmptyArray) = Some None \<and>
   reencodeJSON recordTokens jsonEmptyArray = Some (None, []) \<and>
   map_option fst (decodeJSON jsonEmptyObject) = Some None \<and>
   reencodeJSON recordTokens jsonEmptyObject =
     Some (None, [xml_StartElement \<lparr>Space = [], Local = ''foo''\<rparr> [],
                  xml_EndElement \<lparr>Space = [], Local = ''foo''\<rparr>]) \<and>
   map_option fst (decodeJSON jsonBadName) = Some None \<and>
   Children (decodedStore jsonBadName) 0 = Some [1, 3] \<and>
   val (decodedStore jsonBadName 1) = ValElement \<lparr>Space = ''a'', Local = ''b''\<rparr> [] \<and>
   val (decodedStore jsonBadName 3) = ValElement \<lparr>Space = ''a'', Local = []\<rparr> [] \<and>
   reencodeJSON recordTokens jsonBadName =
     Some (None,
           [xml_StartElement \<lparr>Space = ''a'', Local = ''b''\<rparr> [], xml_CharData ''1'',
            xml_EndElement \<lparr>Space = ''a'', Local = ''b''\<rparr>,
            xml_StartElement \<lparr>Space = ''a'', Local = []\<rparr> [], xml_CharData ''2'',
            xml_EndElement \<lparr>Space = ''a'', Local = []\<rparr>]) \<and>
   reencodeJSON checkedTokens jsonBadName =
     Some (Some (Errorf ''xml: start tag with no name''),
           [xml_StartElement \<lparr>Space = ''a'', Local = ''b''\<rparr> [], xml_CharData ''1'',
            xml_EndElement \<lparr>Space = ''a'', Local = ''b''\<rparr>]) \<and>
   (CHR '':'' \<notin> set ns \<and> ns \<noteq> [] \<longrightarrow>
      jsTagToName (ns @ CHR '':'' # l) = \<lparr>Space = ns, Local = l\<rparr>) \<and>
   (CHR '':'' \<notin> set k \<longrightarrow> jsTagToName k = \<lparr>Space = [], Local = k\<rparr>) \<and>
   (tokens d = Delim CHR ''['' # ts \<longrightarrow>
      fst (jsDecodeArray T d) = None \<and>
      jerror (snd (jsDecodeArray T d)) =
        Some (Errorf ''decoding of nested arrays unsupported''))"
proof -
  have a: "map_option fst (decodeJSON jsonEmptyArray) = Some None" by code_simp
  have b: "reencodeJSON recordTokens jsonEmptyArray = Some (None, [])" by code_simp
  have c: "map_option fst (decodeJSON jsonEmptyObject) = Some None" by code_simp
  have d: "reencodeJSON recordTokens jsonEmptyObject =
     Some (None, [xml_StartElement \<lparr>Space = [], Local = ''foo''\<rparr> [],
                  xml_EndElement \<lparr>Space = [], Local = ''foo''\<rparr>])" by code_simp
  have e: "map_option fst (decodeJSON jsonBadName) = Some None" by code_simp
  have f: "reencodeJSON recordTokens jsonBadName =
     Some (None,
           [xml_StartElement \<lparr>Space = ''a'', Local = ''b''\<rparr> [], xml_CharData ''1'',
            xml_EndElement \<lparr>Space = ''a'', Local = ''b''\<rparr>,
            xml_StartElement \<lparr>Space = ''a'', Local = []\<rparr> [], xml_CharData ''2'',
            xml_EndElement \<lparr>Space = ''a'', Local = []\<rparr>])" by code_simp
  have g: "reencodeJSON checkedTokens jsonBadName =
     Some (Some (Errorf ''xml: start tag with no name''),
           [xml_StartElement \<lparr>Space = ''a'', Local = ''b''\<rparr> [], xml_CharData ''1'',
            xml_EndElement \<lparr>Space = ''a'', Local = ''b''\<rparr>])" by code_simp
  have t1: "Children (decodedStore jsonBadName) 0 = Some [1, 3]" by code_simp
  have t2: "val (decodedStore jsonBadName 1) = ValElement \<lparr>Space = ''a'', Local = ''b''\<rparr> []"
    by code_simp
  have t3: "val (decodedStore jsonBadName 3) = ValElement \<lparr>Space = ''a'', Local = []\<rparr> []"
    by code_simp
  show ?thesis
    using a b c d e f g t1 t2 t3 jsTagToName_split[of ns l] jsTagToName_plain[of k]
      nested_array_rejected[of d ts T]
    by simp
qed

text \<open>
  The theorem at the keys \<^verbatim>\<open>foo:bar\<close>, \<^verbatim>\<open>a:b:c\<close> and \<^verbatim>\<open>foo\<close>, and at the bridge inside the outer
  array of \<^verbatim>\<open>{"foo": [[1]]}\<close>.
\<close>

theorem JSON_shape_mapping_witness:
  "jsTagToName ''foo:bar'' = \<lparr>Space = ''foo'', Local = ''bar''\<rparr> \<and>
   jsTagToName ''a:b:c'' = \<lparr>Space = ''a'', Local = ''b:c''\<rparr> \<and>
   jsTagToName ''foo'' = \<lparr>Space = [], Local = ''foo''\<rparr> \<and>
   fst (jsDecodeArray (BuilderDecoder trimSpaceASCII) exArrayDecoder) = None \<and>
   jerror (snd (jsDecodeArray (BuilderDecoder trimSpaceASCII) exArrayDecoder)) =
     Some (Errorf ''decoding of nested arrays unsupported'')"
  using JSON_shape_mapping[of "''foo''" "''bar''" "''foo''" exArrayDecoder
      "[JNumber ''1'', Delim CHR '']'', Delim CHR '']'', Delim CHR ''}'']" "BuilderDecoder trimSpaceASCII"]
    JSON_shape_mapping[of "''a''" "''b:c''" "''foo''" exArrayDecoder
      "[JNumber ''1'', Delim CHR '']'', Delim CHR '']'', Delim CHR ''}'']" "BuilderDecoder trimSpaceASCII"]
  by (simp add: exArrayDecoder_def)

text \<open>
  The claim has it that \<^verbatim>\<open>{"a:b": 1, "a:": 2}\<close> yields a decode error.  The run returns no
  error, and the element for the key \<^verbatim>\<open>a:\<close> is in the tree with its text child.
\<close>

theorem JSON_bad_name_decodes_without_error:
  "map_option fst (decodeJSON jsonBadName) = Some None \<and>
   val (decodedStore jsonBadName 3) = ValElement \<lparr>Space = ''a'', Local = []\<rparr> [] \<and>
   Children (decodedStore jsonBadName) 3 = Some [4] \<and>
   val (decodedStore jsonBadName 4) = ValText ''2''"
  by code_simp

lemma tokenLoop_feed:
  "tokenLoop tdToken tdEnd ts s =
     (case feedTokens tdToken ts s of
        (Some err, s1) \<Rightarrow> (Some err, s1)
      | (None, s1) \<Rightarrow> (tdEnd (Some EOF) s1, s1))"
  by (induction ts arbitrary: s) (auto split: prod.splits option.splits)

lemma dstack_runFrame: "dstack (runFrame f un) = dstack un"
  by (cases f) (simp add: runFrame_def)

lemma errors_runFrame: "errors (runFrame f un) = errors un"
  by (cases f) (simp add: runFrame_def)

lemma StartElement_ok_stack:
  assumes "Decoder_StartElement name attrs un s = (None, un1, s1)"
  shows "\<exists>f. dstack un1 = f # dstack un"
  using assms
  by (auto simp: Decoder_StartElement_def Let_def split: sum.splits prod.splits if_splits option.splits)

lemma EndElement_ok_stack:
  assumes "Decoder_EndElement un s = (None, un1, s1)"
  shows "\<exists>f. dstack un = f # dstack un1"
  using assms
  by (auto simp: Decoder_EndElement_def dstack_runFrame split: list.splits)

lemma CharData_ok_stack:
  assumes "Decoder_CharData cd un s = (None, un1, s1)"
  shows "dstack un1 = dstack un"
  using assms
  by (auto simp: Decoder_CharData_def Let_def dstack_runFrame
      split: if_splits list.splits prod.splits option.splits)

lemma stack_discipline:
  assumes "feedTokens Decoder_Token ts (un, s) = (None, un1, s1)"
    and "nesting k ts = Some k1"
    and "dstack un = fs @ base" and "length fs = k"
  shows "\<exists>fs1. dstack un1 = fs1 @ base \<and> length fs1 = k1"
  using assms
proof (induction ts arbitrary: un s k fs)
  case Nil
  then show ?case by simp
next
  case (Cons t ts)
  obtain e un2 s2 where step: "Decoder_Token t (un, s) = (e, un2, s2)"
    by (cases "Decoder_Token t (un, s)") auto
  with Cons.prems(1) have e: "e = None" and rest: "feedTokens Decoder_Token ts (un2, s2) = (None, un1, s1)"
    by (auto split: option.splits)
  show ?case
  proof (cases t)
    case (xml_StartElement name attrs)
    with step e have "Decoder_StartElement name attrs un s = (None, un2, s2)"
      by (simp add: Decoder_Token_def)
    then obtain f where "dstack un2 = f # dstack un" using StartElement_ok_stack by blast
    with Cons.prems(3,4) have st: "dstack un2 = (f # fs) @ base" "length (f # fs) = Suc k" by auto
    from Cons.prems(2) xml_StartElement have "nesting (Suc k) ts = Some k1" by simp
    from Cons.IH[OF rest this st] show ?thesis .
  next
    case (xml_EndElement name)
    with step e have ee: "Decoder_EndElement un s = (None, un2, s2)"
      by (simp add: Decoder_Token_def)
    from Cons.prems(2) xml_EndElement obtain j where k: "k = Suc j" and n: "nesting j ts = Some k1"
      by (auto split: nat.splits)
    from k Cons.prems(4) obtain f fs0 where fs: "fs = f # fs0" "length fs0 = j"
      by (cases fs) auto
    from ee obtain g where "dstack un = g # dstack un2" using EndElement_ok_stack by blast
    with Cons.prems(3) fs have "dstack un2 = fs0 @ base" by simp
    from Cons.IH[OF rest n this fs(2)] show ?thesis .
  next
    case (xml_CharData cd)
    with step e have "Decoder_CharData cd un s = (None, un2, s2)"
      by (simp add: Decoder_Token_def)
    then have "dstack un2 = dstack un" by (rule CharData_ok_stack)
    with Cons.prems(3) have st: "dstack un2 = fs @ base" by simp
    from Cons.prems(2) xml_CharData have "nesting k ts = Some k1" by simp
    from Cons.IH[OF rest this st Cons.prems(4)] show ?thesis .
  next
    case (xml_Comment c)
    with step have "un2 = un" by (simp add: Decoder_Token_def)
    with Cons.prems(3) have st: "dstack un2 = fs @ base" by simp
    from Cons.prems(2) xml_Comment have "nesting k ts = Some k1" by simp
    from Cons.IH[OF rest this st Cons.prems(4)] show ?thesis .
  next
    case (xml_ProcInst pi)
    with step have "un2 = un" by (simp add: Decoder_Token_def)
    with Cons.prems(3) have st: "dstack un2 = fs @ base" by simp
    from Cons.prems(2) xml_ProcInst have "nesting k ts = Some k1" by simp
    from Cons.IH[OF rest this st Cons.prems(4)] show ?thesis .
  next
    case (xml_Directive d)
    with step e show ?thesis by (simp add: Decoder_Token_def)
  qed
qed

lemma balanced_keeps_stack:
  assumes "feedTokens Decoder_Token ts (un, s) = (None, un1, s1)" "balanced ts"
  shows "dstack un1 = dstack un"
  using stack_discipline[OF assms(1), of 0 0 "[]" "dstack un"] assms(2)
  by (simp add: balanced_def)

lemma StartElement_fails:
  assumes "childname un = Some lookup" "Decoder_resolve lookup un name = Inl err"
  shows "Decoder_StartElement name attrs un s =
     (None,
      un\<lparr>errors := errors un @ [err], skip := True,
         dstack := Frame (schema un) (DNode un) True # dstack un\<rparr>,
      s)"
  using assms by (simp add: Decoder_StartElement_def Let_def)

lemma Decoder_Token_errors:
  assumes "Decoder_Token t (un, s) = (e, un1, s1)"
  shows "\<exists>more. errors un1 = errors un @ more"
  using assms
  by (cases t)
     (auto simp: Decoder_Token_def Decoder_StartElement_def Decoder_EndElement_def
        Decoder_CharData_def Let_def errors_runFrame
        split: sum.splits prod.splits if_splits option.splits list.splits)

lemma feedTokens_errors:
  assumes "feedTokens Decoder_Token ts (un, s) = (e, un1, s1)"
  shows "\<exists>more. errors un1 = errors un @ more"
  using assms
proof (induction ts arbitrary: un s)
  case Nil
  then show ?case by simp
next
  case (Cons t ts)
  obtain e2 un2 s2 where step: "Decoder_Token t (un, s) = (e2, un2, s2)"
    by (cases "Decoder_Token t (un, s)") auto
  from Decoder_Token_errors[OF step] obtain m1 where m1: "errors un2 = errors un @ m1" by blast
  show ?case
  proof (cases e2)
    case None
    with Cons.prems step have "feedTokens Decoder_Token ts (un2, s2) = (e, un1, s1)" by simp
    from Cons.IH[OF this] m1 show ?thesis by auto
  next
    case (Some a)
    with Cons.prems step m1 show ?thesis by auto
  qed
qed

lemma example_decode:
  "fst (decodeYANG xmlHostname) = None"
  "errors (fst (snd (decodeYANG xmlHostname))) =
     [Errorf (''unexpected child element <hostname xmlns='' @ quoted ''urn:mod1'' @ ''>'')]"
  "marshalDoc recordTokens (snd (snd (decodeYANG xmlHostname))) =
     Some (None, [xml_StartElement \<lparr>Space = ''urn:mod1'', Local = ''system''\<rparr> [],
                  xml_EndElement \<lparr>Space = ''urn:mod1'', Local = ''system''\<rparr>])"
  by code_simp+

lemma example_decode_valid:
  "fst (decodeYANG xmlHostName) = None"
  "errors (fst (snd (decodeYANG xmlHostName))) = []"
  "marshalDoc recordTokens (snd (snd (decodeYANG xmlHostName))) =
     Some (None, [xml_StartElement \<lparr>Space = ''urn:mod1'', Local = ''system''\<rparr> [],
                  xml_StartElement \<lparr>Space = [], Local = ''host-name''\<rparr> [],
                  xml_CharData ''abc123'',
                  xml_EndElement \<lparr>Space = [], Local = ''host-name''\<rparr>,
                  xml_EndElement \<lparr>Space = ''urn:mod1'', Local = ''system''\<rparr>])"
  by code_simp+

text \<open>
  Claim C9.  When the name of a start tag does not resolve against the schema, whether
  the module is unknown, the name is unknown or the namespace differs, \<^verbatim>\<open>StartElement\<close>
  returns nil, appends exactly that error to the recorded errors, sets the skip flag,
  leaves the document as it was and pushes a restore frame.  After any balanced run of
  tokens that ends without a critical error, the recorded errors still begin with the
  ones before and this one, and \<^verbatim>\<open>EndElement\<close> pops that frame: schema and cursor are the
  ones before the start tag, the skip flag is off and the stack is the one before.  The
  sample document with \<^verbatim>\<open>hostname\<close> decodes with exactly one recorded error and re-encodes to
  the start and end tag of \<^verbatim>\<open>system\<close>.
\<close>

theorem schema_skip_and_continue:
  "(childname un = Some lookup \<and> Decoder_resolve lookup un name = Inl err \<longrightarrow>
      Decoder_StartElement name attrs un s =
        (None,
         un\<lparr>errors := errors un @ [err], skip := True,
            dstack := Frame (schema un) (DNode un) True # dstack un\<rparr>,
         s) \<and>
      (balanced ts \<and>
       feedTokens Decoder_Token ts (snd (Decoder_StartElement name attrs un s)) = (None, un2, s2) \<longrightarrow>
         (\<exists>more. errors un2 = errors un @ [err] @ more) \<and>
         Decoder_EndElement un2 s2 =
           (None,
            un2\<lparr>schema := schema un, DNode := DNode un, skip := False, dstack := dstack un\<rparr>,
            s2))) \<and>
   fst (decodeYANG xmlHostname) = None \<and>
   errors (fst (snd (decodeYANG xmlHostname))) =
     [Errorf (''unexpected child element <hostname xmlns='' @ quoted ''urn:mod1'' @ ''>'')] \<and>
   marshalDoc recordTokens (snd (snd (decodeYANG xmlHostname))) =
     Some (None, [xml_StartElement \<lparr>Space = ''urn:mod1'', Local = ''system''\<rparr> [],
                  xml_EndElement \<lparr>Space = ''urn:mod1'', Local = ''system''\<rparr>])"
proof -
  have gen: "Decoder_StartElement name attrs un s =
        (None,
         un\<lparr>errors := errors un @ [err], skip := True,
            dstack := Frame (schema un) (DNode un) True # dstack un\<rparr>,
         s) \<and>
      (balanced ts \<and>
       feedTokens Decoder_Token ts (snd (Decoder_StartElement name attrs un s)) = (None, un2, s2) \<longrightarrow>
         (\<exists>more. errors un2 = errors un @ [err] @ more) \<and>
         Decoder_EndElement un2 s2 =
           (None,
            un2\<lparr>schema := schema un, DNode := DNode un, skip := False, dstack := dstack un\<rparr>,
            s2))"
    if cn: "childname un = Some lookup" and fail: "Decoder_resolve lookup un name = Inl err"
  proof (intro conjI impI)
    let ?un1 = "un\<lparr>errors := errors un @ [err], skip := True,
            dstack := Frame (schema un) (DNode un) True # dstack un\<rparr>"
    show st: "Decoder_StartElement name attrs un s = (None, ?un1, s)"
      using StartElement_fails[OF cn fail] .
    assume a: "balanced ts \<and>
       feedTokens Decoder_Token ts (snd (Decoder_StartElement name attrs un s)) = (None, un2, s2)"
    then have run: "feedTokens Decoder_Token ts (?un1, s) = (None, un2, s2)" and bal: "balanced ts"
      using st by auto
    from feedTokens_errors[OF run] show "\<exists>more. errors un2 = errors un @ [err] @ more" by auto
    from balanced_keeps_stack[OF run bal]
    have "dstack un2 = Frame (schema un) (DNode un) True # dstack un" by simp
    then show "Decoder_EndElement un2 s2 =
           (None,
            un2\<lparr>schema := schema un, DNode := DNode un, skip := False, dstack := dstack un\<rparr>,
            s2)"
      by (simp add: Decoder_EndElement_def runFrame_def)
  qed
  show ?thesis using gen example_decode by blast
qed

lemma afterSystem_resolve:
  "Decoder_resolve rfc6020Lookup (fst afterSystem) \<lparr>Space = ''urn:mod1'', Local = ''hostname''\<rparr> =
     Inl (Errorf (''unexpected child element <hostname xmlns='' @ quoted ''urn:mod1'' @ ''>''))"
  by code_simp

lemma afterSystem_fields:
  "DNode (fst afterSystem) = Some 1" "errors (fst afterSystem) = []" "skip (fst afterSystem) = False"
  "dstack (fst afterSystem) = [Frame None (Some 0) False]"
  "childname (fst afterSystem) = Some rfc6020Lookup"
  by code_simp+

text \<open>
  The theorem at the start tag of \<^verbatim>\<open>hostname\<close> in the sample document, followed by the text
  inside it.
\<close>

theorem schema_skip_and_continue_witness:
  "childname (fst afterSystem) = Some rfc6020Lookup \<and>
   Decoder_resolve rfc6020Lookup (fst afterSystem) hostnameName =
     Inl (Errorf (''unexpected child element <hostname xmlns='' @ quoted ''urn:mod1'' @ ''>'')) \<and>
   fst (Decoder_StartElement hostnameName [] (fst afterSystem) (snd afterSystem)) = None \<and>
   errors (fst afterHostname) =
     [Errorf (''unexpected child element <hostname xmlns='' @ quoted ''urn:mod1'' @ ''>'')] \<and>
   skip (fst afterHostname) \<and>
   snd afterHostname = snd afterSystem \<and>
   balanced [xml_CharData ''abc123''] \<and>
   fst (feedTokens Decoder_Token [xml_CharData ''abc123''] afterHostname) = None \<and>
   fst (Decoder_EndElement (fst afterText) (snd afterText)) = None \<and>
   DNode (fst (snd (Decoder_EndElement (fst afterText) (snd afterText)))) = Some 1 \<and>
   schema (fst (snd (Decoder_EndElement (fst afterText) (snd afterText)))) = schema (fst afterSystem) \<and>
   \<not> skip (fst (snd (Decoder_EndElement (fst afterText) (snd afterText)))) \<and>
   dstack (fst (snd (Decoder_EndElement (fst afterText) (snd afterText)))) =
     [Frame None (Some 0) False]"
proof -
  let ?E = "Errorf (''unexpected child element <hostname xmlns='' @ quoted ''urn:mod1'' @ ''>'')"
  have r: "Decoder_resolve rfc6020Lookup (fst afterSystem) hostnameName = Inl ?E"
    using afterSystem_resolve by (simp add: hostnameName_def)
  have b: "balanced [xml_CharData ''abc123'']" by (simp add: balanced_def)
  have f: "fst (feedTokens Decoder_Token [xml_CharData ''abc123''] afterHostname) = None"
    by code_simp
  then have run: "feedTokens Decoder_Token [xml_CharData ''abc123'']
       (snd (Decoder_StartElement hostnameName [] (fst afterSystem) (snd afterSystem))) =
       (None, fst afterText, snd afterText)"
    by (simp add: afterText_def afterHostname_def prod_eq_iff)
  from schema_skip_and_continue[of "fst afterSystem" rfc6020Lookup hostnameName ?E "[]"
      "snd afterSystem"
      "[xml_CharData ''abc123'']" "fst afterText" "snd afterText"] r b run
  show ?thesis
    using f by (simp add: afterHostname_def afterSystem_fields)
qed

end
